theory Spec2Isabelle
  imports Main
begin

section \<open>Runtime failures and SQL errors\<close>

text \<open>
  A Go function of the engine either returns, returns one of the engine's error kinds, or
  panics. All three are values here: a result is \<open>error + 'a\<close>, with \<open>Inl\<close> the failure.
  \<open>ErrOther\<close> is an error made with \<open>fmt.Errorf\<close> (it belongs to no error kind),
  \<open>ExprError\<close> an error returned by an expression or a collaborator, and the last three
  are run-time panics.
\<close>

datatype error =
    ErrColumnDefaultReturnedNull
  | ErrIncompatibleDefaultType
  | ErrValueOutOfRange
  | ErrInvalidChildrenNumber
  | ErrInvalidLookupForIndexedTable
  | ErrConflictingExternalQuery
  | ErrOther string
  | ExprError string
  | NilPointerDereference
  | IndexOutOfRange
  | PlaceholderPanic

definition bind_err :: "error + 'a \<Rightarrow> ('a \<Rightarrow> error + 'b) \<Rightarrow> error + 'b" where
  "bind_err m f = (case m of Inl e \<Rightarrow> Inl e | Inr x \<Rightarrow> f x)"

text \<open>Dereferencing a pointer, and indexing a slice, panic when they cannot be done.\<close>

definition deref :: "'a option \<Rightarrow> error + 'a" where
  "deref p = (case p of None \<Rightarrow> Inl NilPointerDereference | Some x \<Rightarrow> Inr x)"

definition index_at :: "'a list \<Rightarrow> nat \<Rightarrow> error + 'a" where
  "index_at xs i = (if i < length xs then Inr (xs ! i) else Inl IndexOutOfRange)"

section \<open>Quoting identifiers\<close>

text \<open>
  A Go string is a sequence of bytes, as a HOL \<open>string\<close> is. \<open>backtick\<close> is the byte 0x60.
  \<open>ReplaceAll s old new\<close> is \<open>strings.ReplaceAll\<close> for a one-byte \<open>old\<close>, the only way
  \<open>QuoteIdentifier\<close> calls it: it scans left to right and replaces every occurrence.
\<close>

definition backtick :: char where
  "backtick = CHR 0x60"

primrec ReplaceAll :: "string \<Rightarrow> char \<Rightarrow> string \<Rightarrow> string" where
  "ReplaceAll [] old new = []"
| "ReplaceAll (c # cs) old new =
     (if c = old then new @ ReplaceAll cs old new else c # ReplaceAll cs old new)"

definition QuoteIdentifier :: "string \<Rightarrow> string" where
  "QuoteIdentifier ident =
     (let ident' = ReplaceAll ident backtick [backtick, backtick]
      in [backtick] @ ident' @ [backtick])"

definition QuoteIdentifiers :: "string list \<Rightarrow> string list" where
  "QuoteIdentifiers ids = map QuoteIdentifier ids"

text \<open>The specification of the escaped text, in its own words: every backtick doubled.\<close>

definition double_backticks :: "string \<Rightarrow> string" where
  "double_backticks s = concat (map (\<lambda>c. if c = backtick then [backtick, backtick] else [c]) s)"

section \<open>Values, types and expressions\<close>

text \<open>
  A Go \<open>interface{}\<close> holding a SQL value is a \<open>val option\<close>: \<open>None\<close> is \<open>nil\<close>, the SQL
  NULL. A row is a slice of such values; the \<open>nil\<close> row is the empty slice.
\<close>

datatype val = IntVal int | StrVal string | BoolVal bool

type_synonym Row = "val option list"

datatype Context = EmptyContext

datatype CollationID = Collation_binary | Collation_id nat

text \<open>
  The interfaces \<open>sql.Type\<close> and \<open>sql.Expression\<close> are records of the methods this
  development calls. \<open>Convert\<close> returns the converted value and the in-range flag, or an
  error. A method that panics on a placeholder node returns \<open>Inl PlaceholderPanic\<close>.
  \<open>expr_NumChildren\<close> is \<open>len(e.Children())\<close>.
\<close>

record sql_Type =
  Convert :: "val option \<Rightarrow> error + (val option \<times> bool)"
  Zero :: "val option"

record Expression =
  expr_Eval :: "Context \<Rightarrow> Row \<Rightarrow> error + val option"
  expr_Type :: "error + sql_Type option"
  expr_IsNullable :: bool
  expr_Resolved :: bool
  expr_NumChildren :: nat
  expr_String :: string
  expr_DebugString :: string
  expr_Coercibility :: "CollationID \<times> nat"

section \<open>Column default values\<close>

text \<open>
  \<open>*ColumnDefaultValue\<close> is a pointer: the \<open>nil\<close> pointer (\<open>None\<close>) is the implicit
  default. Reading a field through the \<open>nil\<close> pointer panics (\<open>deref\<close>).
\<close>

record ColumnDefaultValue =
  Expression :: Expression
  OutType :: "sql_Type option"
  Literal :: bool
  ReturnNil :: bool
  Parenthesized :: bool

definition NewColumnDefaultValue ::
  "Expression \<Rightarrow> sql_Type option \<Rightarrow> bool \<Rightarrow> bool \<Rightarrow> bool \<Rightarrow> error + ColumnDefaultValue option" where
  "NewColumnDefaultValue expr outType representsLiteral parenthesized mayReturnNil =
     Inr (Some \<lparr>Expression = expr, OutType = outType, Literal = representsLiteral,
                ReturnNil = mayReturnNil, Parenthesized = parenthesized\<rparr>)"

definition UnresolvedColumnDefault :: "string \<Rightarrow> Expression" where
  "UnresolvedColumnDefault exprString =
     \<lparr>expr_Eval = (\<lambda>ctx row. Inl PlaceholderPanic),
      expr_Type = Inl PlaceholderPanic,
      expr_IsNullable = True,
      expr_Resolved = False,
      expr_NumChildren = 0,
      expr_String = exprString,
      expr_DebugString = exprString,
      expr_Coercibility = (Collation_binary, 7)\<rparr>"

definition NewUnresolvedColumnDefaultValue :: "string \<Rightarrow> ColumnDefaultValue option" where
  "NewUnresolvedColumnDefaultValue expr =
     Some \<lparr>Expression = UnresolvedColumnDefault expr, OutType = None, Literal = False,
           ReturnNil = False, Parenthesized = False\<rparr>"

definition Children :: "ColumnDefaultValue option \<Rightarrow> Expression list" where
  "Children e = (case e of None \<Rightarrow> [] | Some c \<Rightarrow> [Expression c])"

definition Eval :: "ColumnDefaultValue option \<Rightarrow> Context \<Rightarrow> Row \<Rightarrow> error + val option" where
  "Eval e ctx r =
     (case e of
        None \<Rightarrow> Inr None
      | Some c \<Rightarrow>
          (case expr_Eval (Expression c) ctx r of
             Inl err \<Rightarrow> Inl err
           | Inr v \<Rightarrow>
               if v = None \<and> \<not> ReturnNil c then Inl ErrColumnDefaultReturnedNull
               else (case OutType c of
                       None \<Rightarrow> Inr v
                     | Some t \<Rightarrow>
                         (case Convert t v of
                            Inl err \<Rightarrow> Inl ErrIncompatibleDefaultType
                          | Inr (v', inRange) \<Rightarrow>
                              if \<not> inRange then Inl ErrValueOutOfRange else Inr v'))))"

definition IsLiteral :: "ColumnDefaultValue option \<Rightarrow> bool" where
  "IsLiteral e = (case e of None \<Rightarrow> True | Some c \<Rightarrow> Literal c)"

definition IsParenthesized :: "ColumnDefaultValue option \<Rightarrow> bool" where
  "IsParenthesized e = (case e of None \<Rightarrow> False | Some c \<Rightarrow> Parenthesized c)"

definition IsNullable :: "ColumnDefaultValue option \<Rightarrow> bool" where
  "IsNullable e =
     (case e of
        None \<Rightarrow> True
      | Some c \<Rightarrow> if \<not> ReturnNil c then False else expr_IsNullable (Expression c))"

definition Resolved :: "ColumnDefaultValue option \<Rightarrow> bool" where
  "Resolved e =
     (case e of
        None \<Rightarrow> True
      | Some c \<Rightarrow> if OutType c = None then False else expr_Resolved (Expression c))"

definition String :: "ColumnDefaultValue option \<Rightarrow> string" where
  "String e =
     (case e of
        None \<Rightarrow> []
      | Some c \<Rightarrow>
          if Literal c then expr_String (Expression c)
          else ''('' @ expr_String (Expression c) @ '')'')"

definition DebugString :: "ColumnDefaultValue option \<Rightarrow> string" where
  "DebugString e =
     (case e of
        None \<Rightarrow> []
      | Some c \<Rightarrow>
          if Literal c then expr_DebugString (Expression c)
          else if Parenthesized c then ''parenthesized('' @ expr_DebugString (Expression c) @ '')''
          else ''('' @ expr_DebugString (Expression c) @ '')'')"

definition Type :: "ColumnDefaultValue option \<Rightarrow> error + sql_Type option" where
  "Type e =
     (case e of
        None \<Rightarrow> Inr None
      | Some c \<Rightarrow> if OutType c = None then expr_Type (Expression c) else Inr (OutType c))"

definition CollationCoercibility :: "ColumnDefaultValue option \<Rightarrow> Context \<Rightarrow> CollationID \<times> nat" where
  "CollationCoercibility e ctx =
     (case e of None \<Rightarrow> (Collation_binary, 6) | Some c \<Rightarrow> expr_Coercibility (Expression c))"

text \<open>
  \<open>WithChildren\<close>: in the branch for the \<open>nil\<close> receiver with one child, the source reads
  \<open>e.OutType\<close>, a field of the \<open>nil\<close> pointer.
\<close>

definition WithChildren ::
  "ColumnDefaultValue option \<Rightarrow> Expression list \<Rightarrow> error + ColumnDefaultValue option" where
  "WithChildren e children =
     (if e = None \<and> length children = 0 then Inr e
      else if length children \<noteq> 1 then Inl ErrInvalidChildrenNumber
      else if e = None then
        (let isLiteral = (expr_NumChildren (children ! 0) = 0)
         in bind_err (deref e) (\<lambda>c.
              NewColumnDefaultValue (children ! 0) (OutType c) isLiteral (\<not> isLiteral) True))
      else
        bind_err (deref e) (\<lambda>c.
          NewColumnDefaultValue (children ! 0) (OutType c) (Literal c) (Parenthesized c)
            (ReturnNil c)))"

text \<open>\<open>CheckType\<close> returns an error or \<open>nil\<close> (\<open>Inr ()\<close>); it reads \<open>e.OutType\<close> first.\<close>

definition CheckType :: "ColumnDefaultValue option \<Rightarrow> Context \<Rightarrow> error + unit" where
  "CheckType e ctx =
     bind_err (deref e) (\<lambda>c.
       case OutType c of
         None \<Rightarrow> Inr ()
       | Some t \<Rightarrow>
           if Literal c then
             (case expr_Eval (Expression c) ctx [] of
                Inl err \<Rightarrow> Inl err
              | Inr v \<Rightarrow>
                  if v = None \<and> \<not> ReturnNil c then Inl ErrIncompatibleDefaultType
                  else (case Convert t v of
                          Inl err \<Rightarrow> Inl ErrIncompatibleDefaultType
                        | Inr (v', inRange) \<Rightarrow>
                            if \<not> inRange then Inl ErrIncompatibleDefaultType else Inr ()))
           else Inr ())"

section \<open>Window frames\<close>

text \<open>
  The parser's frame types (package \<open>sqlparser\<close>): a frame holds a pointer to its extent,
  an extent holds pointers to its start and end bounds, and a bound has a type. The
  predicates receive a \<open>*ast.Frame\<close>, which may be \<open>nil\<close>.
\<close>

datatype BoundType =
  CurrentRow | UnboundedFollowing | UnboundedPreceding | ExprPreceding | ExprFollowing

datatype FrameUnit = RangeUnit | RowsUnit

record FrameBound =
  bound_Expr :: "string option"
  bound_Type :: BoundType

record FrameExtent =
  Start :: "FrameBound option"
  End :: "FrameBound option"

record Frame =
  Unit :: FrameUnit
  Extent :: "FrameExtent option"

text \<open>
  Go's \<open>&&\<close> and \<open>||\<close> evaluate their right operand only when the left one does not decide
  the result; a panic in an operand that is evaluated is the result.
\<close>

definition and_then :: "error + bool \<Rightarrow> error + bool \<Rightarrow> error + bool" where
  "and_then a b = (case a of Inl e \<Rightarrow> Inl e | Inr x \<Rightarrow> if x then b else Inr False)"

definition or_else :: "error + bool \<Rightarrow> error + bool \<Rightarrow> error + bool" where
  "or_else a b = (case a of Inl e \<Rightarrow> Inl e | Inr x \<Rightarrow> if x then Inr True else b)"

text \<open>The operands: \<open>frame.Extent.Start\<close>, \<open>frame.Extent.End\<close> and the bound's \<open>Type\<close>.\<close>

definition frame_Extent_Start :: "Frame option \<Rightarrow> error + FrameBound option" where
  "frame_Extent_Start frame =
     bind_err (deref frame) (\<lambda>f. bind_err (deref (Extent f)) (\<lambda>x. Inr (Start x)))"

definition frame_Extent_End :: "Frame option \<Rightarrow> error + FrameBound option" where
  "frame_Extent_End frame =
     bind_err (deref frame) (\<lambda>f. bind_err (deref (Extent f)) (\<lambda>x. Inr (End x)))"

definition bound_not_nil :: "error + FrameBound option \<Rightarrow> error + bool" where
  "bound_not_nil b = bind_err b (\<lambda>p. Inr (p \<noteq> None))"

definition bound_Type_is :: "error + FrameBound option \<Rightarrow> BoundType \<Rightarrow> error + bool" where
  "bound_Type_is b t = bind_err b (\<lambda>p. bind_err (deref p) (\<lambda>x. Inr (bound_Type x = t)))"

text \<open>
  \<open>&&\<close> binds tighter than \<open>||\<close>: the source's
  \<open>frame != nil && S != nil && S.Type == T || E != nil && E.Type == T\<close> is
  \<open>((frame != nil && S != nil) && S.Type == T) || (E != nil && E.Type == T)\<close>.
\<close>

definition getFrameUnboundedPreceding :: "Frame option \<Rightarrow> error + bool" where
  "getFrameUnboundedPreceding frame =
     or_else
       (and_then (and_then (Inr (frame \<noteq> None)) (bound_not_nil (frame_Extent_Start frame)))
          (bound_Type_is (frame_Extent_Start frame) UnboundedPreceding))
       (and_then (bound_not_nil (frame_Extent_End frame))
          (bound_Type_is (frame_Extent_End frame) UnboundedPreceding))"

definition getFrameUnboundedFollowing :: "Frame option \<Rightarrow> error + bool" where
  "getFrameUnboundedFollowing frame =
     or_else
       (and_then (and_then (Inr (frame \<noteq> None)) (bound_not_nil (frame_Extent_Start frame)))
          (bound_Type_is (frame_Extent_Start frame) UnboundedFollowing))
       (and_then (bound_not_nil (frame_Extent_End frame))
          (bound_Type_is (frame_Extent_End frame) UnboundedFollowing))"

text \<open>The sibling predicates of the same file, which test \<open>frame\<close> for \<open>nil\<close> first.\<close>

definition getFrameStartCurrentRow :: "Frame option \<Rightarrow> error + bool" where
  "getFrameStartCurrentRow frame =
     and_then (Inr (frame \<noteq> None)) (bound_Type_is (frame_Extent_Start frame) CurrentRow)"

definition getFrameEndCurrentRow :: "Frame option \<Rightarrow> error + bool" where
  "getFrameEndCurrentRow frame =
     (if frame = None then Inr False
      else bind_err (frame_Extent_End frame) (\<lambda>e.
        if e = None then Inr True
        else and_then (and_then (Inr (frame \<noteq> None)) (bound_not_nil (frame_Extent_End frame)))
               (bound_Type_is (frame_Extent_End frame) CurrentRow)))"

section \<open>Loops over an index range\<close>

text \<open>
  \<open>for_each is body s\<close> runs \<open>body i\<close> for the indices of \<open>is\<close> in order, threading the
  state, and stops at the first failure: a Go \<open>for\<close> loop whose body may panic or return
  an error. \<open>for i := range xs\<close> is \<open>for_each [0..<length xs]\<close>.
\<close>

primrec for_each :: "nat list \<Rightarrow> (nat \<Rightarrow> 's \<Rightarrow> error + 's) \<Rightarrow> 's \<Rightarrow> error + 's" where
  "for_each [] body s = Inr s"
| "for_each (i # is) body s =
     (case body i s of Inl e \<Rightarrow> Inl e | Inr s' \<Rightarrow> for_each is body s')"

section \<open>Index ranges and index lookups\<close>

text \<open>
  A range column expression has a lower and an upper cut and a type; \<open>Below\<close> and \<open>Above\<close>
  carry a key. Its zero value, as \<open>make\<close> fills a new slice with, has \<open>nil\<close> in all three
  fields. A \<open>sql.Range\<close> is a slice of them, one per index column.
\<close>

datatype RangeCut = Below "val option" | Above "val option" | BelowNull | AboveNull | AboveAll

record RangeColumnExpr =
  LowerBound :: "RangeCut option"
  UpperBound :: "RangeCut option"
  Typ :: "sql_Type option"

type_synonym Range = "RangeColumnExpr list"

definition zero_RangeColumnExpr :: RangeColumnExpr where
  "zero_RangeColumnExpr = \<lparr>LowerBound = None, UpperBound = None, Typ = None\<rparr>"

text \<open>
  The constructors of range column expressions are defined elsewhere in package \<open>sql\<close>;
  they are parameters of the model, so every result holds for any implementation of them.
\<close>

record range_constructors =
  AllRangeColumnExpr :: "sql_Type \<Rightarrow> RangeColumnExpr"
  NullRangeColumnExpr :: "sql_Type \<Rightarrow> RangeColumnExpr"
  NotNullRangeColumnExpr :: "sql_Type \<Rightarrow> RangeColumnExpr"
  ClosedRangeColumnExpr :: "val option \<Rightarrow> val option \<Rightarrow> sql_Type \<Rightarrow> RangeColumnExpr"

record ColumnExpressionType =
  cet_Expression :: string
  cet_Type :: sql_Type

text \<open>The interface \<open>sql.Index\<close>, as the record of the methods called here.\<close>

record Index =
  IsUnique :: bool
  ColumnExpressionTypes :: "ColumnExpressionType list"
  CanSupport :: "Range list \<Rightarrow> bool"

record IndexLookup =
  lookup_Index :: "Index option"
  Ranges :: "Range list"
  IsPointLookup :: bool
  IsEmptyRange :: bool
  IsSpatialLookup :: bool
  IsReverse :: bool

definition zero_IndexLookup :: IndexLookup where
  "zero_IndexLookup =
     \<lparr>lookup_Index = None, Ranges = [], IsPointLookup = False, IsEmptyRange = False,
      IsSpatialLookup = False, IsReverse = False\<rparr>"

section \<open>LookupBuilder\<close>

text \<open>
  The builder's state. \<open>key\<close> and \<open>rang\<close> are slices that start as \<open>nil\<close> (\<open>None\<close>) and are
  allocated on first use. (\<open>keyExprs2\<close>, read only by \<open>GetKey2\<close>, is left out.)
\<close>

record LookupBuilder =
  keyExprs :: "Expression list"
  matchesNullMask :: "bool list"
  index :: Index
  key :: "val option list option"
  rang :: "Range option"
  nullSafe :: bool
  isPointLookup :: bool
  emptyRange :: bool
  cets :: "ColumnExpressionType list"

definition NewLookupBuilder :: "Index \<Rightarrow> Expression list \<Rightarrow> bool list \<Rightarrow> LookupBuilder" where
  "NewLookupBuilder idx exprs msk =
     (let cs = ColumnExpressionTypes idx;
          ns = fold (\<lambda>m ns. if m then False else ns) msk True
      in \<lparr>keyExprs = exprs, matchesNullMask = msk, index = idx, key = None, rang = None,
          nullSafe = ns, isPointLookup = True, emptyRange = False, cets = cs\<rparr>)"

text \<open>The assignment \<open>lb.rang[i] = v\<close>.\<close>

definition set_rang :: "LookupBuilder \<Rightarrow> nat \<Rightarrow> RangeColumnExpr \<Rightarrow> error + LookupBuilder" where
  "set_rang lb i v =
     (case rang lb of
        None \<Rightarrow> Inl IndexOutOfRange
      | Some r \<Rightarrow> if i < length r then Inr (lb\<lparr>rang := Some (r[i := v])\<rparr>) else Inl IndexOutOfRange)"

text \<open>The test \<open>if key[i] == nil\<close> that opens the body of both loops over the key.\<close>

definition note_nil_key :: "LookupBuilder \<Rightarrow> val option \<Rightarrow> LookupBuilder" where
  "note_nil_key lb k = (if k = None then lb\<lparr>emptyRange := True, isPointLookup := False\<rparr> else lb)"

text \<open>The body of the first loop of \<open>initializeRange\<close>, at index \<open>i\<close> (\<open>i < len(key)\<close>).\<close>

definition initializeRange_key_step ::
  "range_constructors \<Rightarrow> val option list \<Rightarrow> nat \<Rightarrow> LookupBuilder \<Rightarrow> error + LookupBuilder" where
  "initializeRange_key_step sql k i lb =
     (let lb1 = note_nil_key lb (k ! i)
      in bind_err (index_at (matchesNullMask lb1) i) (\<lambda>m.
         bind_err (index_at (cets lb1) i) (\<lambda>cet.
           if m then
             (if k ! i = None then set_rang lb1 i (NullRangeColumnExpr sql (cet_Type cet))
              else set_rang lb1 i (NotNullRangeColumnExpr sql (cet_Type cet)))
           else set_rang lb1 i (ClosedRangeColumnExpr sql (k ! i) (k ! i) (cet_Type cet)))))"

text \<open>The body of its second loop, which pads the positions from \<open>len(key)\<close> on.\<close>

definition initializeRange_pad_step ::
  "range_constructors \<Rightarrow> nat \<Rightarrow> LookupBuilder \<Rightarrow> error + LookupBuilder" where
  "initializeRange_pad_step sql i lb =
     bind_err (index_at (cets lb) i) (\<lambda>cet.
     bind_err (set_rang lb i (AllRangeColumnExpr sql (cet_Type cet))) (\<lambda>lb1.
       Inr (lb1\<lparr>isPointLookup := False\<rparr>)))"

definition initializeRange ::
  "range_constructors \<Rightarrow> LookupBuilder \<Rightarrow> val option list \<Rightarrow> error + LookupBuilder" where
  "initializeRange sql lb k =
     (let lb1 = lb\<lparr>rang := Some (replicate (length (cets lb)) zero_RangeColumnExpr)\<rparr>;
          lb2 = lb1\<lparr>emptyRange := False\<rparr>;
          lb3 = lb2\<lparr>isPointLookup := (length k = length (cets lb2))\<rparr>
      in bind_err (for_each [0..<length k] (initializeRange_key_step sql k) lb3) (\<lambda>lb4.
           for_each [length k..<length (cets lb4)] (initializeRange_pad_step sql) lb4))"

text \<open>The lookup both branches of \<open>GetLookup\<close> return.\<close>

definition lookup_of_builder :: "LookupBuilder \<Rightarrow> IndexLookup" where
  "lookup_of_builder lb =
     \<lparr>lookup_Index = Some (index lb),
      Ranges = [case rang lb of None \<Rightarrow> [] | Some r \<Rightarrow> r],
      IsPointLookup = (nullSafe lb \<and> isPointLookup lb \<and> IsUnique (index lb)),
      IsEmptyRange = emptyRange lb,
      IsSpatialLookup = False,
      IsReverse = False\<rparr>"

text \<open>
  The body of the loop of \<open>GetLookup\<close> on a builder whose range exists: a position that is
  not null-safe only has its two bounds overwritten.
\<close>

definition GetLookup_key_step ::
  "range_constructors \<Rightarrow> val option list \<Rightarrow> nat \<Rightarrow> LookupBuilder \<Rightarrow> error + LookupBuilder" where
  "GetLookup_key_step sql k i lb =
     (let lb1 = note_nil_key lb (k ! i)
      in bind_err (index_at (matchesNullMask lb1) i) (\<lambda>m.
           if m then
             bind_err (index_at (cets lb1) i) (\<lambda>cet.
               if k ! i = None then set_rang lb1 i (NullRangeColumnExpr sql (cet_Type cet))
               else set_rang lb1 i (NotNullRangeColumnExpr sql (cet_Type cet)))
           else
             bind_err (index_at (case rang lb1 of None \<Rightarrow> [] | Some r \<Rightarrow> r) i) (\<lambda>old.
               set_rang lb1 i
                 (old\<lparr>LowerBound := Some (Below (k ! i)), UpperBound := Some (Above (k ! i))\<rparr>))))"

definition GetLookup ::
  "range_constructors \<Rightarrow> LookupBuilder \<Rightarrow> val option list \<Rightarrow> error + (IndexLookup \<times> LookupBuilder)" where
  "GetLookup sql lb k =
     (if rang lb = None then
        bind_err (initializeRange sql lb k) (\<lambda>lb'. Inr (lookup_of_builder lb', lb'))
      else
        (let lb1 = lb\<lparr>emptyRange := False\<rparr>;
             lb2 = lb1\<lparr>isPointLookup := (length k = length (cets lb1))\<rparr>
         in bind_err (for_each [0..<length k] (GetLookup_key_step sql k) lb2) (\<lambda>lb'.
              Inr (lookup_of_builder lb', lb'))))"

text \<open>\<open>GetKey\<close> evaluates the key expressions on a row into the scratch key.\<close>

definition GetKey_step :: "Context \<Rightarrow> Row \<Rightarrow> nat \<Rightarrow> LookupBuilder \<Rightarrow> error + LookupBuilder" where
  "GetKey_step ctx row i lb =
     bind_err (index_at (keyExprs lb) i) (\<lambda>e.
       case expr_Eval e ctx row of
         Inl err \<Rightarrow> Inl err
       | Inr v \<Rightarrow>
           (case key lb of
              None \<Rightarrow> Inl IndexOutOfRange
            | Some ks \<Rightarrow>
                if i < length ks then Inr (lb\<lparr>key := Some (ks[i := v])\<rparr>)
                else Inl IndexOutOfRange))"

definition GetKey ::
  "LookupBuilder \<Rightarrow> Context \<Rightarrow> Row \<Rightarrow> error + (val option list \<times> LookupBuilder)" where
  "GetKey lb ctx row =
     (let lb1 = (if key lb = None
                 then lb\<lparr>key := Some (replicate (length (keyExprs lb)) None)\<rparr> else lb)
      in bind_err (for_each [0..<length (keyExprs lb1)] (GetKey_step ctx row) lb1) (\<lambda>lb2.
           Inr (case key lb2 of None \<Rightarrow> [] | Some ks \<Rightarrow> ks, lb2)))"

text \<open>\<open>GetZeroKey\<close>: the zero value of each key expression's type.\<close>

primrec zero_values :: "Expression list \<Rightarrow> error + val option list" where
  "zero_values [] = Inr []"
| "zero_values (e # es) =
     bind_err (expr_Type e) (\<lambda>t.
     bind_err (deref t) (\<lambda>ty.
     bind_err (zero_values es) (\<lambda>ks. Inr (Zero ty # ks))))"

definition GetZeroKey :: "LookupBuilder \<Rightarrow> error + val option list" where
  "GetZeroKey lb = zero_values (keyExprs lb)"

text \<open>
  \<open>LookupBuilder.WithExpressions\<close> copies five fields into a new builder; the others get
  their zero values.
\<close>

definition LookupBuilder_WithExpressions ::
  "LookupBuilder \<Rightarrow> Expression list \<Rightarrow> error + LookupBuilder" where
  "LookupBuilder_WithExpressions lb exprs =
     (if length exprs \<noteq> length (keyExprs lb) then Inl ErrInvalidChildrenNumber
      else Inr \<lparr>keyExprs = exprs, matchesNullMask = matchesNullMask lb, index = index lb,
                key = None, rang = rang lb, nullSafe = False, isPointLookup = False,
                emptyRange = False, cets = cets lb\<rparr>)"

section \<open>Invariants of a LookupBuilder\<close>

text \<open>
  \<open>padded_from sql n lb\<close>: the builder's range, once allocated, has one position per index
  column, and every position from \<open>n\<close> on holds the \<open>all\<close> range of that column's type.
\<close>

definition padded_from :: "range_constructors \<Rightarrow> nat \<Rightarrow> LookupBuilder \<Rightarrow> bool" where
  "padded_from sql n lb =
     (case rang lb of
        None \<Rightarrow> True
      | Some r \<Rightarrow>
          length r = length (cets lb) \<and>
          drop n r = map (\<lambda>c. AllRangeColumnExpr sql (cet_Type c)) (drop n (cets lb)))"

text \<open>
  \<open>built idx exprs msk lb\<close>: \<open>lb\<close> has the configuration that \<open>NewLookupBuilder idx exprs msk\<close>
  sets up, and its range, once allocated, has one position per index column. \<open>GetLookup\<close>
  and \<open>GetKey\<close> keep it.
\<close>

definition built :: "Index \<Rightarrow> Expression list \<Rightarrow> bool list \<Rightarrow> LookupBuilder \<Rightarrow> bool" where
  "built idx exprs msk lb =
     (keyExprs lb = exprs \<and> matchesNullMask lb = msk \<and> index lb = idx \<and>
      cets lb = ColumnExpressionTypes idx \<and>
      nullSafe lb = (True \<notin> set msk) \<and>
      (case rang lb of None \<Rightarrow> True | Some r \<Rightarrow> length r = length (cets lb)))"

text \<open>What a call leaves alone: the builder's configuration.\<close>

definition same_config :: "LookupBuilder \<Rightarrow> LookupBuilder \<Rightarrow> bool" where
  "same_config lb lb' =
     (keyExprs lb' = keyExprs lb \<and> matchesNullMask lb' = matchesNullMask lb \<and>
      index lb' = index lb \<and> nullSafe lb' = nullSafe lb \<and> cets lb' = cets lb)"

text \<open>
  A builder is used for one lookup after the other. \<open>GetLookups\<close> calls \<open>GetLookup\<close> with the
  keys of \<open>ks\<close> in order on the same builder and collects each lookup as it was returned.
\<close>

primrec GetLookups ::
  "range_constructors \<Rightarrow> LookupBuilder \<Rightarrow> val option list list
     \<Rightarrow> error + (IndexLookup list \<times> LookupBuilder)" where
  "GetLookups sql lb [] = Inr ([], lb)"
| "GetLookups sql lb (k # ks) =
     bind_err (GetLookup sql lb k) (\<lambda>(lk, lb').
     bind_err (GetLookups sql lb' ks) (\<lambda>(lks, lb''). Inr (lk # lks, lb'')))"

text \<open>What the claim about padding says of one lookup, for keys of length \<open>n\<close>.\<close>

definition range_padded :: "range_constructors \<Rightarrow> Index \<Rightarrow> nat \<Rightarrow> IndexLookup \<Rightarrow> bool" where
  "range_padded sql idx n lk =
     (case Ranges lk of
        [r] \<Rightarrow> length r = length (ColumnExpressionTypes idx) \<and>
               drop n r = map (\<lambda>c. AllRangeColumnExpr sql (cet_Type c))
                            (drop n (ColumnExpressionTypes idx))
      | _ \<Rightarrow> False)"

section \<open>Indexed table access\<close>

text \<open>
  A \<open>sql.Table\<close> value: its name, whether it implements \<open>sql.IndexAddressableTable\<close>, and,
  when it is a \<open>sql.TableWrapper\<close>, the table it wraps. \<open>IndexedAccess t lookup\<close> stands for
  the \<open>sql.IndexedTable\<close> that \<open>t.IndexedAccess(lookup)\<close> returns.
\<close>

datatype Table = MkTable (table_Name: string) (IndexAddressable: bool) (Underlying: "Table option")

datatype IndexedTable = IndexedAccess Table IndexLookup

record ResolvedTable =
  Table :: Table
  Database :: string
  AsOf :: "val option"

record IndexedTableAccess =
  ResolvedTable :: ResolvedTable
  lb :: "LookupBuilder option"
  lookup :: IndexLookup
  Table :: "IndexedTable option"

text \<open>\<open>if t, ok := table.(sql.TableWrapper); ok { table = t.Underlying() }\<close>\<close>

definition unwrap :: "Table \<Rightarrow> Table" where
  "unwrap table = (case Underlying table of Some t \<Rightarrow> t | None \<Rightarrow> table)"

definition NewIndexedTableAccess ::
  "ResolvedTable \<Rightarrow> IndexedTable option \<Rightarrow> LookupBuilder option \<Rightarrow> IndexedTableAccess" where
  "NewIndexedTableAccess rt t b =
     \<lparr>ResolvedTable = rt, lb = b, lookup = zero_IndexLookup, Table = t\<rparr>"

definition NewIndexedAccessForResolvedTable ::
  "range_constructors \<Rightarrow> ResolvedTable \<Rightarrow> LookupBuilder option \<Rightarrow> error + IndexedTableAccess" where
  "NewIndexedAccessForResolvedTable sql rt b =
     (let table = unwrap (ResolvedTable.Table rt)
      in if \<not> IndexAddressable table
         then Inl (ErrOther (''table is not index addressable: '' @ table_Name table))
         else
           bind_err (deref b) (\<lambda>builder.
           bind_err (GetZeroKey builder) (\<lambda>zeroKey.
           bind_err (GetLookup sql builder zeroKey) (\<lambda>(lk, builder').
           bind_err (deref (lookup_Index lk)) (\<lambda>idx.
             if \<not> CanSupport idx (Ranges lk) then Inl ErrInvalidLookupForIndexedTable
             else Inr \<lparr>ResolvedTable = rt, lb = Some builder', lookup = zero_IndexLookup,
                       Table = Some (IndexedAccess table lk)\<rparr>)))))"

definition NewStaticIndexedTableAccess ::
  "ResolvedTable \<Rightarrow> IndexedTable option \<Rightarrow> IndexLookup \<Rightarrow> IndexedTableAccess" where
  "NewStaticIndexedTableAccess rt t lk =
     \<lparr>ResolvedTable = rt, lb = None, lookup = lk, Table = t\<rparr>"

definition NewStaticIndexedAccessForResolvedTable ::
  "ResolvedTable \<Rightarrow> IndexLookup \<Rightarrow> error + IndexedTableAccess" where
  "NewStaticIndexedAccessForResolvedTable rt lk =
     (let table = unwrap (ResolvedTable.Table rt)
      in if \<not> IndexAddressable table
         then Inl (ErrOther (''table is not index addressable: '' @ table_Name table))
         else
           bind_err (deref (lookup_Index lk)) (\<lambda>idx.
             if \<not> CanSupport idx (Ranges lk) then Inl ErrInvalidLookupForIndexedTable
             else Inr \<lparr>ResolvedTable = rt, lb = None, lookup = lk,
                       Table = Some (IndexedAccess table lk)\<rparr>))"

text \<open>
  \<open>WithTable\<close> has a value receiver: it works on a copy of the node. The method
  \<open>ResolvedTable.WithTable\<close> that it calls first is defined in another file and is the
  parameter \<open>rtWithTable\<close>. The lookup it checks is the static one when the node
  has one, else the builder's lookup for the zero key, else the zero lookup, whose
  \<open>Index\<close> is \<open>nil\<close>.
\<close>

definition WithTable ::
  "(ResolvedTable \<Rightarrow> Table \<Rightarrow> error + ResolvedTable) \<Rightarrow> range_constructors
     \<Rightarrow> IndexedTableAccess \<Rightarrow> Table \<Rightarrow> error + IndexedTableAccess" where
  "WithTable rtWithTable sql i table =
     bind_err (rtWithTable (ResolvedTable i) table) (\<lambda>nrt.
       let i1 = i\<lparr>ResolvedTable := nrt\<rparr>;
           table1 = unwrap table
       in if \<not> IndexAddressable table1
          then Inl (ErrOther ''table does not support indexed access'')
          else
            bind_err
              (if lookup_Index (lookup i1) \<noteq> None then Inr (lookup i1, i1)
               else (case lb i1 of
                       Some builder \<Rightarrow>
                         bind_err (GetZeroKey builder) (\<lambda>zeroKey.
                         bind_err (GetLookup sql builder zeroKey) (\<lambda>(lk, builder').
                           Inr (lk, i1\<lparr>lb := Some builder'\<rparr>)))
                     | None \<Rightarrow> Inr (zero_IndexLookup, i1)))
              (\<lambda>(lk, i2).
                 bind_err (deref (lookup_Index lk)) (\<lambda>idx.
                   if CanSupport idx (Ranges lk) then Inl ErrInvalidLookupForIndexedTable
                   else Inr i2)))"

section \<open>The plan builder: expressions, nodes and scopes\<close>

text \<open>
  The expressions and plan nodes that \<open>buildNaturalJoin\<close> and \<open>buildUnion\<close> construct, named
  after the constructors the source calls; a constructor keeps its arguments. \<open>Scalar\<close> is
  any other expression, \<open>TableNode\<close> any other node, \<open>NilNode\<close> the \<open>nil\<close> node.
\<close>

datatype Expr =
    NewGetFieldWithTable nat string string
  | NewEquals Expr Expr
  | NewAnd Expr Expr
  | Scalar string

datatype SortOrder = Ascending | Descending

record SortField =
  Column :: "Expr option"
  Order :: SortOrder

datatype JoinType =
    JoinTypeInner | JoinTypeLeftOuter | JoinTypeRightOuter | JoinTypeFullOuter
  | JoinTypeLateralCross | JoinTypeLateralInner | JoinTypeLateralLeft | JoinTypeLateralRight

datatype Node =
    NilNode
  | TableNode string
  | NewCrossJoin Node Node
  | NewJoin Node Node JoinType "Expr option"
  | NewUnion Node Node bool "Expr option" "Expr option" "SortField list"

text \<open>
  A column of a scope, with the fields the source reads (\<open>col\<close>, \<open>scalar\<close>, \<open>descending\<close>)
  and the names the data model lists. \<open>var matched scopeColumn\<close> is the zero value.
\<close>

record scopeColumn =
  db :: string
  table :: string
  col :: string
  colId :: nat
  scalar :: "Expr option"
  descending :: bool

definition zero_scopeColumn :: scopeColumn where
  "zero_scopeColumn =
     \<lparr>db = [], table = [], col = [], colId = 0, scalar = None, descending = False\<rparr>"

text \<open>
  The methods \<open>empty\<close> and \<open>scalarGf\<close> of a scope column are defined in another file
  (scope.go); they are parameters of the model.
\<close>

record scopeColumn_methods =
  empty :: "scopeColumn \<Rightarrow> bool"
  scalarGf :: "scopeColumn \<Rightarrow> Expr"

datatype scope =
  Scope (parent: "scope option") (node: Node) (cols: "scopeColumn list")
    (redirectCol: "(scopeColumn \<times> scopeColumn) list")

text \<open>
  Modelled from the spec: \<open>push\<close>, whose code (file scope.go) is missing, makes a child
  scope of the scope it is called on.
\<close>

definition push :: "scope \<Rightarrow> scope" where
  "push s = Scope (Some s) NilNode [] []"

text \<open>
  Modelled from the spec: \<open>addColumn\<close>, whose code (file scope.go) is missing, adds a column
  at the end of the scope's ordered list of columns.
\<close>

definition addColumn :: "scope \<Rightarrow> scopeColumn \<Rightarrow> scope" where
  "addColumn s c = Scope (parent s) (node s) (cols s @ [c]) (redirectCol s)"

text \<open>
  Modelled from the spec: \<open>redirect\<close>, whose code (file scope.go) is missing, records that
  references to the first column resolve as the second.
\<close>

definition redirect :: "scope \<Rightarrow> scopeColumn \<Rightarrow> scopeColumn \<Rightarrow> scope" where
  "redirect s from to = Scope (parent s) (node s) (cols s) (redirectCol s @ [(from, to)])"

text \<open>The assignment \<open>outScope.node = n\<close>.\<close>

definition set_node :: "scope \<Rightarrow> Node \<Rightarrow> scope" where
  "set_node s n = Scope (parent s) n (cols s) (redirectCol s)"

section \<open>buildNaturalJoin\<close>

text \<open>
  The state of the two loops: the output scope, the projection list and the filter
  (\<open>None\<close> is the \<open>nil\<close> expression).
\<close>

type_synonym natural_join_state = "scope \<times> Expr list \<times> Expr option"

text \<open>The body of the loop over the left columns.\<close>

definition naturalJoin_left_step ::
  "scopeColumn_methods \<Rightarrow> scopeColumn \<Rightarrow> scope \<times> Expr list \<Rightarrow> scope \<times> Expr list" where
  "naturalJoin_left_step m lCol st =
     (case st of (outScope, proj) \<Rightarrow> (addColumn outScope lCol, proj @ [scalarGf m lCol]))"

text \<open>
  The body of the loop over the right columns. The inner loop stops at the first left
  column of the same name (\<open>find\<close>). The equality \<open>f\<close> is built, and joined to the filter,
  after the \<open>if\<close>: for every right column, matched or not.
\<close>

definition naturalJoin_right_step ::
  "scopeColumn_methods \<Rightarrow> scope \<Rightarrow> scopeColumn \<Rightarrow> natural_join_state \<Rightarrow> natural_join_state" where
  "naturalJoin_right_step m leftScope rCol st =
     (case st of (outScope, proj, filt) \<Rightarrow>
        (let matched = (case find (\<lambda>lCol. col lCol = col rCol) (cols leftScope) of
                          Some lCol \<Rightarrow> lCol
                        | None \<Rightarrow> zero_scopeColumn);
             outScope' = (if \<not> empty m matched then redirect outScope rCol matched
                          else addColumn outScope rCol);
             proj' = (if \<not> empty m matched then proj else proj @ [scalarGf m rCol]);
             f = NewEquals (scalarGf m matched) (scalarGf m rCol);
             filt' = (case filt of None \<Rightarrow> f | Some g \<Rightarrow> NewAnd g f)
         in (outScope', proj', Some filt')))"

definition buildNaturalJoin ::
  "scopeColumn_methods \<Rightarrow> scope \<Rightarrow> scope \<Rightarrow> scope \<Rightarrow> scope" where
  "buildNaturalJoin m inScope leftScope rightScope =
     (let st1 = fold (naturalJoin_left_step m) (cols leftScope) (push inScope, []);
          st2 = fold (naturalJoin_right_step m leftScope) (cols rightScope)
                  (fst st1, snd st1, None)
      in case st2 of (outScope, proj, filt) \<Rightarrow>
           (case filt of
              None \<Rightarrow> set_node outScope (NewCrossJoin (node leftScope) (node rightScope))
            | Some f \<Rightarrow>
                set_node outScope (NewJoin (node leftScope) (node rightScope) JoinTypeInner (Some f))))"

section \<open>buildUnion\<close>

text \<open>
  The parser's union statement, with its parts kept as text, and the builder methods that
  \<open>buildUnion\<close> calls and that are defined in other files of the package: parameters of
  the model. Each may abort the build with an error.
\<close>

type_synonym SelectStatement = string

record ast_Limit =
  Limit_Offset :: "string option"
  Limit_Rowcount :: "string option"

record ast_Union =
  Union_Type :: string
  Union_Left :: SelectStatement
  Union_Right :: SelectStatement
  Union_OrderBy :: "string list"
  Union_Limit :: "ast_Limit option"

definition UnionAllStr :: string where
  "UnionAllStr = ''union all''"

record PlanBuilder =
  buildSelectStmt :: "scope \<Rightarrow> SelectStatement \<Rightarrow> error + scope"
  buildLimit :: "scope \<Rightarrow> ast_Limit option \<Rightarrow> error + Expr option"
  buildOffset :: "scope \<Rightarrow> ast_Limit option \<Rightarrow> error + Expr option"
  analyzeOrderBy :: "scope \<Rightarrow> scope \<Rightarrow> string list \<Rightarrow> error + scope"

text \<open>
  Modelled from the spec: \<open>handleErr\<close>, whose code is missing, aborts the build of the
  statement with the error it is given, so a call \<open>b.handleErr(err)\<close> is the result
  \<open>Inl err\<close>.
\<close>

definition handleErr :: "error \<Rightarrow> error + 'a" where
  "handleErr err = Inl err"

definition sortFields_of :: "scope \<Rightarrow> SortField list" where
  "sortFields_of orderByScope =
     map (\<lambda>c. \<lparr>Column = scalar c, Order = (if descending c then Descending else Ascending)\<rparr>)
       (cols orderByScope)"

text \<open>
  The block \<open>if ok { ... }\<close> of \<open>buildUnion\<close>, for a left node that is a union: the three
  tests in the source's order, then the inner union rebuilt without sort, limit and
  offset. It returns the new left node, limit, offset and sort fields.
\<close>

definition hoist_left_union ::
  "Node \<Rightarrow> Expr option \<Rightarrow> Expr option \<Rightarrow> SortField list
     \<Rightarrow> error + (Node \<times> Expr option \<times> Expr option \<times> SortField list)" where
  "hoist_left_union leftNode limit offset sortFields =
     (case leftNode of
        NewUnion nLeft nRight nDistinct nLimit nOffset nSortFields \<Rightarrow>
          bind_err
            (if length nSortFields > 0
             then (if length sortFields > 0 then handleErr ErrConflictingExternalQuery
                   else Inr nSortFields)
             else Inr sortFields) (\<lambda>sortFields'.
          bind_err
            (if nLimit \<noteq> None
             then (if limit \<noteq> None then handleErr (ErrOther ''conflicing external LIMIT'')
                   else Inr nLimit)
             else Inr limit) (\<lambda>limit'.
          bind_err
            (if nOffset \<noteq> None
             then (if offset \<noteq> None then handleErr (ErrOther ''conflicing external OFFSET'')
                   else Inr nOffset)
             else Inr offset) (\<lambda>offset'.
            Inr (NewUnion nLeft nRight nDistinct None None [], limit', offset', sortFields'))))
      | _ \<Rightarrow> Inr (leftNode, limit, offset, sortFields))"

definition buildUnion :: "PlanBuilder \<Rightarrow> scope \<Rightarrow> ast_Union \<Rightarrow> error + scope" where
  "buildUnion b inScope u =
     bind_err (buildSelectStmt b inScope (Union_Left u)) (\<lambda>leftScope.
     bind_err (buildSelectStmt b inScope (Union_Right u)) (\<lambda>rightScope.
       let distinct = (Union_Type u \<noteq> UnionAllStr)
       in bind_err (buildLimit b inScope (Union_Limit u)) (\<lambda>limit.
          bind_err (buildOffset b inScope (Union_Limit u)) (\<lambda>offset.
          bind_err (analyzeOrderBy b leftScope leftScope (Union_OrderBy u)) (\<lambda>orderByScope.
          bind_err (hoist_left_union (node leftScope) limit offset (sortFields_of orderByScope))
            (\<lambda>(leftNode, limit', offset', sortFields').
               Inr (set_node leftScope
                      (NewUnion leftNode (node rightScope) distinct limit' offset'
                         sortFields'))))))))"

section \<open>Example values\<close>

text \<open>Concrete values on which the theorems below are instantiated.\<close>

definition null_literal :: Expression where
  "null_literal =
     \<lparr>expr_Eval = (\<lambda>ctx row. Inr None), expr_Type = Inr None, expr_IsNullable = True,
      expr_Resolved = True, expr_NumChildren = 0, expr_String = ''NULL'',
      expr_DebugString = ''NULL'', expr_Coercibility = (Collation_binary, 6)\<rparr>"

definition not_null_default :: ColumnDefaultValue where
  "not_null_default =
     \<lparr>Expression = null_literal, OutType = None, Literal = True, ReturnNil = False,
      Parenthesized = False\<rparr>"

text \<open>
  An integer type, a key expression that reads column 0 of the row, and range constructors
  in the usual cut representation.
\<close>

definition int_type :: sql_Type where
  "int_type = \<lparr>Convert = (\<lambda>v. Inr (v, True)), Zero = Some (IntVal 0)\<rparr>"

definition column0 :: Expression where
  "column0 =
     \<lparr>expr_Eval = (\<lambda>ctx row. index_at row 0), expr_Type = Inr (Some int_type),
      expr_IsNullable = True, expr_Resolved = True, expr_NumChildren = 0,
      expr_String = ''c0'', expr_DebugString = ''c0'',
      expr_Coercibility = (Collation_binary, 5)\<rparr>"

definition cut_ranges :: range_constructors where
  "cut_ranges =
     \<lparr>AllRangeColumnExpr =
        (\<lambda>t. \<lparr>LowerBound = Some BelowNull, UpperBound = Some AboveAll, Typ = Some t\<rparr>),
      NullRangeColumnExpr =
        (\<lambda>t. \<lparr>LowerBound = Some BelowNull, UpperBound = Some AboveNull, Typ = Some t\<rparr>),
      NotNullRangeColumnExpr =
        (\<lambda>t. \<lparr>LowerBound = Some AboveNull, UpperBound = Some AboveAll, Typ = Some t\<rparr>),
      ClosedRangeColumnExpr =
        (\<lambda>lo hi t. \<lparr>LowerBound = Some (Below lo), UpperBound = Some (Above hi), Typ = Some t\<rparr>)\<rparr>"

text \<open>A unique index on one column and one on two columns; both accept every range.\<close>

definition unique_index1 :: Index where
  "unique_index1 =
     \<lparr>IsUnique = True,
      ColumnExpressionTypes = [\<lparr>cet_Expression = ''t.x'', cet_Type = int_type\<rparr>],
      CanSupport = (\<lambda>rs. True)\<rparr>"

definition unique_index2 :: Index where
  "unique_index2 =
     \<lparr>IsUnique = True,
      ColumnExpressionTypes =
        [\<lparr>cet_Expression = ''t.x'', cet_Type = int_type\<rparr>,
         \<lparr>cet_Expression = ''t.y'', cet_Type = int_type\<rparr>],
      CanSupport = (\<lambda>rs. True)\<rparr>"

text \<open>
  An index-addressable table, a static lookup on it, the node built from them, an index
  that accepts no range, and a \<open>ResolvedTable.WithTable\<close> that swaps the table in.
\<close>

definition example_table :: Table where
  "example_table = MkTable ''t'' True None"

definition example_rt :: ResolvedTable where
  "example_rt = \<lparr>ResolvedTable.Table = example_table, Database = ''db'', AsOf = None\<rparr>"

definition static_lookup :: IndexLookup where
  "static_lookup =
     \<lparr>lookup_Index = Some unique_index1,
      Ranges = [[ClosedRangeColumnExpr cut_ranges (Some (IntVal 1)) (Some (IntVal 1)) int_type]],
      IsPointLookup = True, IsEmptyRange = False, IsSpatialLookup = False, IsReverse = False\<rparr>"

definition static_access :: IndexedTableAccess where
  "static_access =
     \<lparr>ResolvedTable = example_rt, lb = None, lookup = static_lookup,
      Table = Some (IndexedAccess example_table static_lookup)\<rparr>"

definition picky_index :: Index where
  "picky_index =
     \<lparr>IsUnique = False,
      ColumnExpressionTypes = [\<lparr>cet_Expression = ''t.x'', cet_Type = int_type\<rparr>],
      CanSupport = (\<lambda>rs. False)\<rparr>"

definition replace_table :: "ResolvedTable \<Rightarrow> Table \<Rightarrow> error + ResolvedTable" where
  "replace_table rt t = Inr (rt\<lparr>ResolvedTable.Table := t\<rparr>)"

text \<open>
  Two scopes over one table each, with no column name in common, and scope column methods
  in which the empty column is the one with id 0.
\<close>

definition example_methods :: scopeColumn_methods where
  "example_methods =
     \<lparr>empty = (\<lambda>c. colId c = 0),
      scalarGf = (\<lambda>c. NewGetFieldWithTable (colId c) (table c) (col c))\<rparr>"

definition column_a :: scopeColumn where
  "column_a = \<lparr>db = ''db'', table = ''t1'', col = ''a'', colId = 1, scalar = None,
                descending = False\<rparr>"

definition column_b :: scopeColumn where
  "column_b = \<lparr>db = ''db'', table = ''t2'', col = ''b'', colId = 2, scalar = None,
                descending = False\<rparr>"

definition root_scope :: scope where
  "root_scope = Scope None NilNode [] []"

definition left_scope :: scope where
  "left_scope = Scope (Some root_scope) (TableNode ''t1'') [column_a] []"

definition right_scope :: scope where
  "right_scope = Scope (Some root_scope) (TableNode ''t2'') [column_b] []"

text \<open>
  A builder whose statement \<open>''inner''\<close> builds a union that carries \<open>LIMIT 5\<close>, and two outer
  unions over it: one with no clause of its own, one with \<open>LIMIT 10\<close>.
\<close>

definition inner_union_node :: Node where
  "inner_union_node =
     NewUnion (TableNode ''t1'') (TableNode ''t2'') True (Some (Scalar ''5'')) None []"

definition example_builder :: PlanBuilder where
  "example_builder =
     \<lparr>buildSelectStmt =
        (\<lambda>s stmt. if stmt = ''inner'' then Inr (Scope (Some s) inner_union_node [column_a] [])
                   else Inr (Scope (Some s) (TableNode stmt) [column_a] [])),
      buildLimit =
        (\<lambda>s l. Inr (case l of None \<Rightarrow> None | Some x \<Rightarrow> map_option Scalar (Limit_Rowcount x))),
      buildOffset =
        (\<lambda>s l. Inr (case l of None \<Rightarrow> None | Some x \<Rightarrow> map_option Scalar (Limit_Offset x))),
      analyzeOrderBy =
        (\<lambda>s1 s2 ob. Inr (Scope (Some s1) NilNode
           (map (\<lambda>e. zero_scopeColumn\<lparr>col := e, scalar := Some (Scalar e)\<rparr>) ob) []))\<rparr>"

definition outer_union_plain :: ast_Union where
  "outer_union_plain =
     \<lparr>Union_Type = ''union'', Union_Left = ''inner'', Union_Right = ''t3'',
      Union_OrderBy = [], Union_Limit = None\<rparr>"

definition outer_union_limit :: ast_Union where
  "outer_union_limit =
     \<lparr>Union_Type = ''union'', Union_Left = ''inner'', Union_Right = ''t3'',
      Union_OrderBy = [],
      Union_Limit = Some \<lparr>Limit_Offset = None, Limit_Rowcount = Some ''10''\<rparr>\<rparr>"

section \<open>Properties of identifier quoting\<close>

lemma ReplaceAll_double_backticks:
  "ReplaceAll s backtick [backtick, backtick] = double_backticks s"
  by (induction s) (simp_all add: double_backticks_def)

lemma ReplaceAll_backtick_inj:
  "ReplaceAll s backtick [backtick, backtick] = ReplaceAll t backtick [backtick, backtick]
     \<Longrightarrow> s = t"
proof (induction s arbitrary: t)
  case Nil
  then show ?case by (cases t) (simp_all split: if_splits)
next
  case (Cons c cs)
  show ?case
  proof (cases t)
    case Nil
    with Cons.prems show ?thesis by (simp split: if_splits)
  next
    case (Cons d ds)
    with Cons.prems Cons.IH [of ds] show ?thesis
      by (auto split: if_splits)
  qed
qed

text \<open>
  C10. For every identifier \<open>s\<close>, \<open>QuoteIdentifier s\<close> is a backtick, then \<open>s\<close> with every
  backtick replaced by two backticks, then a closing backtick; and \<open>QuoteIdentifier\<close> is
  injective: two distinct identifiers never have the same quoted form.
\<close>

theorem QuoteIdentifier_form_and_injective:
  "QuoteIdentifier s = [backtick] @ double_backticks s @ [backtick] \<and> inj QuoteIdentifier"
proof
  show "QuoteIdentifier s = [backtick] @ double_backticks s @ [backtick]"
    by (simp add: QuoteIdentifier_def ReplaceAll_double_backticks)
next
  show "inj QuoteIdentifier"
  proof (rule injI)
    fix x y
    assume "QuoteIdentifier x = QuoteIdentifier y"
    then have "ReplaceAll x backtick [backtick, backtick] = ReplaceAll y backtick [backtick, backtick]"
      by (simp add: QuoteIdentifier_def)
    then show "x = y" by (rule ReplaceAll_backtick_inj)
  qed
qed

section \<open>Properties of column default values\<close>

text \<open>
  C5. For every non-absent ColumnDefaultValue with \<open>ReturnNil\<close> (mayReturnNil) false:
  whenever the inner expression evaluates to NULL without error, \<open>Eval\<close> returns the error
  \<open>ErrColumnDefaultReturnedNull\<close>, and so never returns NULL as a value.
\<close>

theorem Eval_null_not_allowed:
  assumes "\<not> ReturnNil c"
    and "expr_Eval (Expression c) ctx r = Inr None"
  shows "Eval (Some c) ctx r = Inl ErrColumnDefaultReturnedNull \<and> Eval (Some c) ctx r \<noteq> Inr None"
  using assms by (simp add: Eval_def)

theorem Eval_null_not_allowed_witness:
  "\<not> ReturnNil not_null_default
   \<and> expr_Eval (Expression not_null_default) EmptyContext [] = Inr None
   \<and> Eval (Some not_null_default) EmptyContext [] = Inl ErrColumnDefaultReturnedNull
   \<and> Eval (Some not_null_default) EmptyContext [] \<noteq> Inr None"
proof -
  have a: "\<not> ReturnNil not_null_default"
    by (simp add: not_null_default_def)
  have b: "expr_Eval (Expression not_null_default) EmptyContext [] = Inr None"
    by (simp add: not_null_default_def null_literal_def)
  show ?thesis
    using a b Eval_null_not_allowed [OF a b] by simp
qed

text \<open>
  On the absent value the methods that test the receiver for \<open>nil\<close> before anything else
  return without error, with the results of the implicit default.
\<close>

lemma absent_default_guarded_methods:
  "Eval None ctx r = Inr None"
  "IsLiteral None"
  "IsNullable None"
  "Resolved None"
  "Children None = []"
  "\<not> IsParenthesized None"
  "String None = []"
  "DebugString None = []"
  "Type None = Inr None"
  "CollationCoercibility None ctx = (Collation_binary, 6)"
  "WithChildren None [] = Inr None"
  by (simp_all add: Eval_def IsLiteral_def IsNullable_def Resolved_def Children_def
      IsParenthesized_def String_def DebugString_def Type_def CollationCoercibility_def
      WithChildren_def)

text \<open>
  C8. The absent ColumnDefaultValue is meant to make every method total. \<open>WithChildren\<close>
  with one child and \<open>CheckType\<close> read the field \<open>OutType\<close> of the \<open>nil\<close> receiver and
  panic.
\<close>

theorem absent_default_WithChildren_CheckType_panic:
  "WithChildren None [child] = Inl NilPointerDereference
   \<and> CheckType None ctx = Inl NilPointerDereference"
  by (simp add: WithChildren_def CheckType_def bind_err_def deref_def)

section \<open>Properties of the window frame predicates\<close>

lemma getFrameUnbounded_total_on_frames:
  assumes "Extent f = Some x"
  shows "\<exists>b. getFrameUnboundedPreceding (Some f) = Inr b"
    and "\<exists>b. getFrameUnboundedFollowing (Some f) = Inr b"
  using assms
  by (cases "Start x"; cases "End x";
      auto simp add: getFrameUnboundedPreceding_def getFrameUnboundedFollowing_def or_else_def
        and_then_def bound_not_nil_def bound_Type_is_def frame_Extent_Start_def
        frame_Extent_End_def bind_err_def deref_def)+

lemma sibling_frame_predicates_on_nil:
  "getFrameStartCurrentRow None = Inr False"
  "getFrameEndCurrentRow None = Inr False"
  by (simp_all add: getFrameStartCurrentRow_def getFrameEndCurrentRow_def and_then_def)

text \<open>
  C9. The predicates \<open>getFrameUnboundedPreceding\<close> and \<open>getFrameUnboundedFollowing\<close> are
  meant to be total on every frame argument. On the \<open>nil\<close> frame the left operand of
  \<open>||\<close> is false, so the right operand \<open>frame.Extent.End != nil\<close> is evaluated and
  dereferences the \<open>nil\<close> frame.
\<close>

theorem getFrameUnbounded_nil_frame_panics:
  "getFrameUnboundedPreceding None = Inl NilPointerDereference
   \<and> getFrameUnboundedFollowing None = Inl NilPointerDereference"
  by (simp add: getFrameUnboundedPreceding_def getFrameUnboundedFollowing_def or_else_def
      and_then_def bound_not_nil_def frame_Extent_End_def bind_err_def deref_def)

section \<open>Loops: invariant rules\<close>

lemma for_each_upt_total_from:
  assumes step: "\<And>i s. a0 \<le> i \<Longrightarrow> i < b \<Longrightarrow> I i s \<Longrightarrow> \<exists>s'. body i s = Inr s' \<and> I (Suc i) s'"
  shows "a0 \<le> a \<Longrightarrow> a \<le> b \<Longrightarrow> I a s \<Longrightarrow> \<exists>s'. for_each [a..<b] body s = Inr s' \<and> I b s'"
proof (induction "b - a" arbitrary: a s)
  case 0
  then show ?case by simp
next
  case (Suc n)
  then have lt: "a < b" by simp
  from step [OF Suc.prems(1) lt Suc.prems(3)] obtain s1 where s1: "body a s = Inr s1" "I (Suc a) s1"
    by blast
  have "n = b - Suc a" using Suc.hyps(2) by simp
  moreover have "Suc a \<le> b" "a0 \<le> Suc a" using lt Suc.prems(1) by simp_all
  ultimately have "\<exists>s'. for_each [Suc a..<b] body s1 = Inr s' \<and> I b s'"
    using Suc.hyps(1) s1(2) by blast
  then show ?case using lt s1 by (simp add: upt_conv_Cons)
qed

lemma for_each_upt_total:
  assumes "a \<le> b" and "I a s"
    and "\<And>i s. a \<le> i \<Longrightarrow> i < b \<Longrightarrow> I i s \<Longrightarrow> \<exists>s'. body i s = Inr s' \<and> I (Suc i) s'"
  shows "\<exists>s'. for_each [a..<b] body s = Inr s' \<and> I b s'"
  using for_each_upt_total_from [of a b I body a s] assms by blast

lemma for_each_upt_partial_from:
  assumes step: "\<And>i s s'. a0 \<le> i \<Longrightarrow> i < b \<Longrightarrow> I i s \<Longrightarrow> body i s = Inr s' \<Longrightarrow> I (Suc i) s'"
  shows "a0 \<le> a \<Longrightarrow> a \<le> b \<Longrightarrow> I a s \<Longrightarrow> for_each [a..<b] body s = Inr s' \<Longrightarrow> I b s'"
proof (induction "b - a" arbitrary: a s)
  case 0
  then show ?case by simp
next
  case (Suc n)
  then have lt: "a < b" by simp
  from Suc.prems(4) lt obtain s1 where s1: "body a s = Inr s1" "for_each [Suc a..<b] body s1 = Inr s'"
    by (auto simp add: upt_conv_Cons split: sum.splits)
  have "I (Suc a) s1" using step [OF Suc.prems(1) lt Suc.prems(3) s1(1)] .
  moreover have "n = b - Suc a" using Suc.hyps(2) by simp
  moreover have "Suc a \<le> b" "a0 \<le> Suc a" using lt Suc.prems(1) by simp_all
  ultimately show ?case using Suc.hyps(1) s1(2) by blast
qed

lemma for_each_upt_partial:
  assumes "a \<le> b" and "I a s" and "for_each [a..<b] body s = Inr s'"
    and "\<And>i s s'. a \<le> i \<Longrightarrow> i < b \<Longrightarrow> I i s \<Longrightarrow> body i s = Inr s' \<Longrightarrow> I (Suc i) s'"
  shows "I b s'"
  using for_each_upt_partial_from [of a b I body a s s'] assms by blast

section \<open>Properties of LookupBuilder\<close>

lemma set_rang_Some:
  "rang bld = Some r \<Longrightarrow> i < length r \<Longrightarrow> set_rang bld i v = Inr (bld\<lparr>rang := Some (r[i := v])\<rparr>)"
  by (simp add: set_rang_def)

lemma note_nil_key_fields:
  "rang (note_nil_key bld x) = rang bld"
  "cets (note_nil_key bld x) = cets bld"
  "matchesNullMask (note_nil_key bld x) = matchesNullMask bld"
  "keyExprs (note_nil_key bld x) = keyExprs bld"
  "index (note_nil_key bld x) = index bld"
  "nullSafe (note_nil_key bld x) = nullSafe bld"
  "key (note_nil_key bld x) = key bld"
  "emptyRange (note_nil_key bld x) = (emptyRange bld \<or> x = None)"
  "isPointLookup (note_nil_key bld x) = (isPointLookup bld \<and> x \<noteq> None)"
  by (auto simp add: note_nil_key_def)

lemma initializeRange_key_step_total:
  assumes "i < length (matchesNullMask bld)" "i < length (cets bld)" "rang bld = Some r" "i < length r"
  shows "\<exists>v. initializeRange_key_step sql k i bld
           = Inr ((note_nil_key bld (k ! i))\<lparr>rang := Some (r[i := v])\<rparr>)"
  using assms
  by (auto simp add: initializeRange_key_step_def Let_def bind_err_def index_at_def
      note_nil_key_fields set_rang_Some)

lemma GetLookup_key_step_total:
  assumes "i < length (matchesNullMask bld)" "i < length (cets bld)" "rang bld = Some r" "i < length r"
  shows "\<exists>v. GetLookup_key_step sql k i bld
           = Inr ((note_nil_key bld (k ! i))\<lparr>rang := Some (r[i := v])\<rparr>)"
  using assms
  by (auto simp add: GetLookup_key_step_def Let_def bind_err_def index_at_def
      note_nil_key_fields set_rang_Some)

lemma key_step_Inr:
  assumes "initializeRange_key_step sql k i bld = Inr lb' \<or> GetLookup_key_step sql k i bld = Inr lb'"
  shows "\<exists>r v. rang bld = Some r \<and> i < length r
           \<and> lb' = (note_nil_key bld (k ! i))\<lparr>rang := Some (r[i := v])\<rparr>"
  using assms
  by (auto simp add: initializeRange_key_step_def GetLookup_key_step_def Let_def bind_err_def
      index_at_def note_nil_key_fields set_rang_def split: if_splits option.splits sum.splits)

lemma key_loop_total:
  assumes body: "\<And>i bld r. i < length (matchesNullMask bld) \<Longrightarrow> i < length (cets bld)
            \<Longrightarrow> rang bld = Some r \<Longrightarrow> i < length r
            \<Longrightarrow> \<exists>v. body i bld = Inr ((note_nil_key bld (k ! i))\<lparr>rang := Some (r[i := v])\<rparr>)"
    and n: "n \<le> length k" "n \<le> length (matchesNullMask lb0)" "n \<le> length (cets lb0)"
    and r0: "rang lb0 = Some r0" "length r0 = length (cets lb0)"
  shows "\<exists>bld r. for_each [0..<n] body lb0 = Inr bld \<and> same_config lb0 bld
           \<and> rang bld = Some r \<and> length r = length r0 \<and> drop n r = drop n r0
           \<and> emptyRange bld = (emptyRange lb0 \<or> None \<in> set (take n k))
           \<and> isPointLookup bld = (isPointLookup lb0 \<and> None \<notin> set (take n k))"
proof -
  define I where "I = (\<lambda>i bld. same_config lb0 bld
      \<and> (\<exists>r. rang bld = Some r \<and> length r = length r0 \<and> drop i r = drop i r0)
      \<and> emptyRange bld = (emptyRange lb0 \<or> None \<in> set (take i k))
      \<and> isPointLookup bld = (isPointLookup lb0 \<and> None \<notin> set (take i k)))"
  have "\<exists>s'. for_each [0..<n] body lb0 = Inr s' \<and> I n s'"
  proof (rule for_each_upt_total)
    show "0 \<le> n" by simp
    show "I 0 lb0" using r0 by (simp add: I_def same_config_def)
  next
    fix i bld
    assume i: "0 \<le> i" "i < n" and inv: "I i bld"
    from inv obtain r where r: "rang bld = Some r" "length r = length r0" "drop i r = drop i r0"
      by (auto simp add: I_def)
    have cfg: "same_config lb0 bld" using inv by (simp add: I_def)
    have bounds: "i < length (matchesNullMask bld)" "i < length (cets bld)" "i < length r"
      using i n r0 r cfg by (simp_all add: same_config_def)
    from body [OF bounds(1,2) r(1) bounds(3)] obtain v
      where v: "body i bld = Inr ((note_nil_key bld (k ! i))\<lparr>rang := Some (r[i := v])\<rparr>)"
      by blast
    have "take (Suc i) k = take i k @ [k ! i]"
      using i n by (simp add: take_Suc_conv_app_nth)
    then have tk: "None \<in> set (take (Suc i) k) \<longleftrightarrow> None \<in> set (take i k) \<or> k ! i = None"
      by auto
    have dr: "drop (Suc i) (r[i := v]) = drop (Suc i) r0"
    proof -
      have "drop (Suc i) (r[i := v]) = drop (Suc i) r" by simp
      also have "\<dots> = drop 1 (drop i r)" by simp
      also have "\<dots> = drop 1 (drop i r0)" using r(3) by simp
      finally show ?thesis by simp
    qed
    have "I (Suc i) ((note_nil_key bld (k ! i))\<lparr>rang := Some (r[i := v])\<rparr>)"
      using inv r dr
      by (simp add: I_def same_config_def note_nil_key_fields tk del: not_None_eq)
    with v show "\<exists>s'. body i bld = Inr s' \<and> I (Suc i) s'" by blast
  qed
  then show ?thesis by (auto simp add: I_def)
qed

lemma key_loop_flags:
  assumes body: "\<And>i bld lb'. body i bld = Inr lb' \<Longrightarrow>
            \<exists>r v. rang bld = Some r \<and> i < length r
              \<and> lb' = (note_nil_key bld (k ! i))\<lparr>rang := Some (r[i := v])\<rparr>"
    and n: "n \<le> length k"
    and run: "for_each [0..<n] body lb0 = Inr bld"
  shows "same_config lb0 bld
           \<and> emptyRange bld = (emptyRange lb0 \<or> None \<in> set (take n k))
           \<and> isPointLookup bld = (isPointLookup lb0 \<and> None \<notin> set (take n k))"
proof -
  define I where "I = (\<lambda>i bld. same_config lb0 bld
      \<and> emptyRange bld = (emptyRange lb0 \<or> None \<in> set (take i k))
      \<and> isPointLookup bld = (isPointLookup lb0 \<and> None \<notin> set (take i k)))"
  have "I n bld"
  proof (rule for_each_upt_partial [where I = I, OF _ _ run])
    show "0 \<le> n" by simp
    show "I 0 lb0" by (simp add: I_def same_config_def)
  next
    fix i s s'
    assume i: "0 \<le> i" "i < n" and inv: "I i s" and st: "body i s = Inr s'"
    from body [OF st] obtain r v
      where s': "s' = (note_nil_key s (k ! i))\<lparr>rang := Some (r[i := v])\<rparr>" by blast
    have "take (Suc i) k = take i k @ [k ! i]"
      using i n by (simp add: take_Suc_conv_app_nth)
    then have tk: "None \<in> set (take (Suc i) k) \<longleftrightarrow> None \<in> set (take i k) \<or> k ! i = None"
      by auto
    show "I (Suc i) s'"
      using inv unfolding s'
      by (simp add: I_def same_config_def note_nil_key_fields tk del: not_None_eq)
  qed
  then show ?thesis by (simp add: I_def)
qed

lemma initializeRange_pad_step_total:
  assumes "i < length (cets bld)" "rang bld = Some r" "i < length r"
  shows "initializeRange_pad_step sql i bld
           = Inr (bld\<lparr>rang := Some (r[i := AllRangeColumnExpr sql (cet_Type (cets bld ! i))]),
                     isPointLookup := False\<rparr>)"
  using assms
  by (simp add: initializeRange_pad_step_def bind_err_def index_at_def set_rang_Some)

lemma initializeRange_pad_step_Inr:
  assumes "initializeRange_pad_step sql i bld = Inr lb'"
  shows "same_config bld lb' \<and> emptyRange lb' = emptyRange bld"
  using assms
  by (auto simp add: initializeRange_pad_step_def bind_err_def index_at_def set_rang_def
      same_config_def split: if_splits option.splits)

lemma pad_loop_total:
  assumes n: "n \<le> length (cets lb0)"
    and r0: "rang lb0 = Some r0" "length r0 = length (cets lb0)"
  shows "\<exists>bld r. for_each [n..<length (cets lb0)] (initializeRange_pad_step sql) lb0 = Inr bld
           \<and> same_config lb0 bld \<and> emptyRange bld = emptyRange lb0
           \<and> isPointLookup bld = (isPointLookup lb0 \<and> n = length (cets lb0))
           \<and> rang bld = Some r \<and> length r = length r0
           \<and> drop n r = map (\<lambda>c. AllRangeColumnExpr sql (cet_Type c)) (drop n (cets lb0))"
proof -
  define I where "I = (\<lambda>i bld. same_config lb0 bld \<and> emptyRange bld = emptyRange lb0
      \<and> isPointLookup bld = (isPointLookup lb0 \<and> i = n)
      \<and> (\<exists>r. rang bld = Some r \<and> length r = length r0
            \<and> (\<forall>j. n \<le> j \<and> j < i
                  \<longrightarrow> r ! j = AllRangeColumnExpr sql (cet_Type (cets lb0 ! j)))))"
  have "\<exists>s'. for_each [n..<length (cets lb0)] (initializeRange_pad_step sql) lb0 = Inr s'
          \<and> I (length (cets lb0)) s'"
  proof (rule for_each_upt_total)
    show "n \<le> length (cets lb0)" by (rule n)
    show "I n lb0" using r0 by (auto simp add: I_def same_config_def)
  next
    fix i bld
    assume i: "n \<le> i" "i < length (cets lb0)" and inv: "I i bld"
    from inv obtain r where r: "rang bld = Some r" "length r = length r0"
      "\<forall>j. n \<le> j \<and> j < i \<longrightarrow> r ! j = AllRangeColumnExpr sql (cet_Type (cets lb0 ! j))"
      by (auto simp add: I_def)
    have cfg: "cets bld = cets lb0" using inv by (simp add: I_def same_config_def)
    have st: "initializeRange_pad_step sql i bld
           = Inr (bld\<lparr>rang := Some (r[i := AllRangeColumnExpr sql (cet_Type (cets bld ! i))]),
                     isPointLookup := False\<rparr>)"
      using i r r0 cfg by (intro initializeRange_pad_step_total) simp_all
    have "I (Suc i)
            (bld\<lparr>rang := Some (r[i := AllRangeColumnExpr sql (cet_Type (cets bld ! i))]),
                 isPointLookup := False\<rparr>)"
      using inv r i r0 cfg
      by (auto simp add: I_def same_config_def nth_list_update less_Suc_eq)
    with st show "\<exists>s'. initializeRange_pad_step sql i bld = Inr s' \<and> I (Suc i) s'" by simp
  qed
  then obtain bld r where bld: "for_each [n..<length (cets lb0)] (initializeRange_pad_step sql) lb0 = Inr bld"
    "same_config lb0 bld" "emptyRange bld = emptyRange lb0"
    "isPointLookup bld = (isPointLookup lb0 \<and> length (cets lb0) = n)"
    "rang bld = Some r" "length r = length r0"
    "\<forall>j. n \<le> j \<and> j < length (cets lb0)
        \<longrightarrow> r ! j = AllRangeColumnExpr sql (cet_Type (cets lb0 ! j))"
    by (auto simp add: I_def)
  have "drop n r = map (\<lambda>c. AllRangeColumnExpr sql (cet_Type c)) (drop n (cets lb0))"
    using bld(6,7) r0(2) by (intro nth_equalityI) simp_all
  with bld show ?thesis by auto
qed

lemma same_config_trans: "same_config a b \<Longrightarrow> same_config b c \<Longrightarrow> same_config a c"
  by (simp add: same_config_def)

lemma initializeRange_total:
  assumes k: "length k \<le> length (cets bld)" "length k \<le> length (matchesNullMask bld)"
  shows "\<exists>lb' r. initializeRange sql bld k = Inr lb' \<and> same_config bld lb'
           \<and> rang lb' = Some r \<and> length r = length (cets bld)
           \<and> drop (length k) r
               = map (\<lambda>c. AllRangeColumnExpr sql (cet_Type c)) (drop (length k) (cets bld))
           \<and> emptyRange lb' = (None \<in> set k)
           \<and> isPointLookup lb' = (length k = length (cets bld) \<and> None \<notin> set k)"
proof -
  define lb3 where "lb3 = bld\<lparr>rang := Some (replicate (length (cets bld)) zero_RangeColumnExpr),
      emptyRange := False, isPointLookup := (length k = length (cets bld))\<rparr>"
  have init: "initializeRange sql bld k
      = bind_err (for_each [0..<length k] (initializeRange_key_step sql k) lb3) (\<lambda>lb4.
          for_each [length k..<length (cets lb4)] (initializeRange_pad_step sql) lb4)"
    by (simp add: initializeRange_def lb3_def Let_def)
  have c3: "same_config bld lb3" by (simp add: lb3_def same_config_def)
  have "\<exists>lb4 r. for_each [0..<length k] (initializeRange_key_step sql k) lb3 = Inr lb4
      \<and> same_config lb3 lb4 \<and> rang lb4 = Some r
      \<and> length r = length (replicate (length (cets bld)) zero_RangeColumnExpr)
      \<and> drop (length k) r = drop (length k) (replicate (length (cets bld)) zero_RangeColumnExpr)
      \<and> emptyRange lb4 = (emptyRange lb3 \<or> None \<in> set (take (length k) k))
      \<and> isPointLookup lb4 = (isPointLookup lb3 \<and> None \<notin> set (take (length k) k))"
    using k by (intro key_loop_total initializeRange_key_step_total) (simp_all add: lb3_def)
  then obtain lb4 r4 where lb4: "for_each [0..<length k] (initializeRange_key_step sql k) lb3 = Inr lb4"
    "same_config lb3 lb4" "rang lb4 = Some r4" "length r4 = length (cets bld)"
    "emptyRange lb4 = (None \<in> set k)"
    "isPointLookup lb4 = (length k = length (cets bld) \<and> None \<notin> set k)"
    by (auto simp add: lb3_def)
  have c4: "cets lb4 = cets bld" using c3 lb4(2) by (simp add: same_config_def)
  have "\<exists>lb5 r. for_each [length k..<length (cets lb4)] (initializeRange_pad_step sql) lb4 = Inr lb5
      \<and> same_config lb4 lb5 \<and> emptyRange lb5 = emptyRange lb4
      \<and> isPointLookup lb5 = (isPointLookup lb4 \<and> length k = length (cets lb4))
      \<and> rang lb5 = Some r \<and> length r = length r4
      \<and> drop (length k) r
          = map (\<lambda>c. AllRangeColumnExpr sql (cet_Type c)) (drop (length k) (cets lb4))"
    using k lb4(3,4) c4 by (intro pad_loop_total) simp_all
  then obtain lb5 r5 where lb5:
    "for_each [length k..<length (cets lb4)] (initializeRange_pad_step sql) lb4 = Inr lb5"
    "same_config lb4 lb5" "emptyRange lb5 = emptyRange lb4"
    "isPointLookup lb5 = (isPointLookup lb4 \<and> length k = length (cets lb4))"
    "rang lb5 = Some r5" "length r5 = length r4"
    "drop (length k) r5
       = map (\<lambda>c. AllRangeColumnExpr sql (cet_Type c)) (drop (length k) (cets lb4))"
    by blast
  have "initializeRange sql bld k = Inr lb5"
    using init lb4(1) lb5(1) by (simp add: bind_err_def)
  moreover have "same_config bld lb5"
    using c3 lb4(2) lb5(2) by (blast intro: same_config_trans)
  ultimately show ?thesis
    using lb4 lb5 c4 by auto
qed

lemma GetLookup_total:
  assumes k: "length k \<le> length (cets bld)" "length k \<le> length (matchesNullMask bld)"
    and sized: "case rang bld of None \<Rightarrow> True | Some r \<Rightarrow> length r = length (cets bld)"
  shows "\<exists>lb' r. GetLookup sql bld k = Inr (lookup_of_builder lb', lb') \<and> same_config bld lb'
           \<and> rang lb' = Some r \<and> length r = length (cets bld)
           \<and> drop (length k) r
               = (case rang bld of
                    None \<Rightarrow> map (\<lambda>c. AllRangeColumnExpr sql (cet_Type c)) (drop (length k) (cets bld))
                  | Some r0 \<Rightarrow> drop (length k) r0)
           \<and> emptyRange lb' = (None \<in> set k)
           \<and> isPointLookup lb' = (length k = length (cets bld) \<and> None \<notin> set k)"
proof (cases "rang bld")
  case None
  from initializeRange_total [OF k, of sql] obtain lb' r where
    "initializeRange sql bld k = Inr lb'" "same_config bld lb'"
    "rang lb' = Some r" "length r = length (cets bld)"
    "drop (length k) r
       = map (\<lambda>c. AllRangeColumnExpr sql (cet_Type c)) (drop (length k) (cets bld))"
    "emptyRange lb' = (None \<in> set k)"
    "isPointLookup lb' = (length k = length (cets bld) \<and> None \<notin> set k)"
    by blast
  then show ?thesis using None by (auto simp add: GetLookup_def bind_err_def)
next
  case (Some r0)
  define lb2 where "lb2 = bld\<lparr>emptyRange := False, isPointLookup := (length k = length (cets bld))\<rparr>"
  have len0: "length r0 = length (cets bld)" using sized Some by simp
  have "\<exists>lb' r. for_each [0..<length k] (GetLookup_key_step sql k) lb2 = Inr lb'
      \<and> same_config lb2 lb' \<and> rang lb' = Some r \<and> length r = length r0
      \<and> drop (length k) r = drop (length k) r0
      \<and> emptyRange lb' = (emptyRange lb2 \<or> None \<in> set (take (length k) k))
      \<and> isPointLookup lb' = (isPointLookup lb2 \<and> None \<notin> set (take (length k) k))"
    using k Some len0 by (intro key_loop_total GetLookup_key_step_total) (simp_all add: lb2_def)
  then obtain lb' r where lb': "for_each [0..<length k] (GetLookup_key_step sql k) lb2 = Inr lb'"
    "same_config lb2 lb'" "rang lb' = Some r" "length r = length r0"
    "drop (length k) r = drop (length k) r0"
    "emptyRange lb' = (None \<in> set k)"
    "isPointLookup lb' = (length k = length (cets bld) \<and> None \<notin> set k)"
    by (auto simp add: lb2_def)
  have "GetLookup sql bld k = Inr (lookup_of_builder lb', lb')"
    using Some lb'(1) by (simp add: GetLookup_def Let_def lb2_def bind_err_def)
  moreover have "same_config bld lb'"
    using lb'(2) by (simp add: same_config_def lb2_def)
  ultimately show ?thesis using lb' Some len0 by auto
qed

lemma for_each_pad_flags:
  assumes "for_each [a..<b] (initializeRange_pad_step sql) lb0 = Inr bld" "a \<le> b"
  shows "same_config lb0 bld \<and> emptyRange bld = emptyRange lb0"
proof (rule for_each_upt_partial
    [where I = "\<lambda>i s. same_config lb0 s \<and> emptyRange s = emptyRange lb0", OF assms(2) _ assms(1)])
  show "same_config lb0 lb0 \<and> emptyRange lb0 = emptyRange lb0" by (simp add: same_config_def)
next
  fix i s s'
  assume "same_config lb0 s \<and> emptyRange s = emptyRange lb0"
    and "initializeRange_pad_step sql i s = Inr s'"
  then show "same_config lb0 s' \<and> emptyRange s' = emptyRange lb0"
    using initializeRange_pad_step_Inr [of sql i s s'] by (auto intro: same_config_trans)
qed

lemma GetLookup_Inr:
  assumes "GetLookup sql bld k = Inr (lk, bld')"
  shows "lk = lookup_of_builder bld' \<and> same_config bld bld' \<and> emptyRange bld' = (None \<in> set k)"
proof (cases "rang bld")
  case None
  define lb3 where "lb3 = bld\<lparr>rang := Some (replicate (length (cets bld)) zero_RangeColumnExpr),
      emptyRange := False, isPointLookup := (length k = length (cets bld))\<rparr>"
  from assms None obtain lb4 where
    lb4: "for_each [0..<length k] (initializeRange_key_step sql k) lb3 = Inr lb4"
    and pad: "for_each [length k..<length (cets lb4)] (initializeRange_pad_step sql) lb4 = Inr bld'"
    and lk: "lk = lookup_of_builder bld'"
    by (auto simp add: GetLookup_def initializeRange_def Let_def bind_err_def lb3_def
        split: sum.splits)
  have f4: "same_config lb3 lb4 \<and> emptyRange lb4 = (None \<in> set k)"
    using key_loop_flags [where body = "initializeRange_key_step sql k" and k = k, OF _ _ lb4]
      key_step_Inr [of sql k] by (simp add: lb3_def)
  have c3: "same_config bld lb3" by (simp add: lb3_def same_config_def)
  show ?thesis
  proof (cases "length k \<le> length (cets lb4)")
    case True
    from for_each_pad_flags [OF pad True] f4 lk c3 show ?thesis
      by (auto intro: same_config_trans)
  next
    case False
    then have "bld' = lb4" using pad by simp
    with f4 lk c3 show ?thesis by (auto intro: same_config_trans)
  qed
next
  case (Some r0)
  define lb2 where "lb2 = bld\<lparr>emptyRange := False, isPointLookup := (length k = length (cets bld))\<rparr>"
  from assms Some have
    run: "for_each [0..<length k] (GetLookup_key_step sql k) lb2 = Inr bld'"
    and lk: "lk = lookup_of_builder bld'"
    by (auto simp add: GetLookup_def Let_def bind_err_def lb2_def split: sum.splits)
  have "same_config lb2 bld' \<and> emptyRange bld' = (None \<in> set k)"
    using key_loop_flags [where body = "GetLookup_key_step sql k" and k = k, OF _ _ run]
      key_step_Inr [of sql k] by (simp add: lb2_def)
  moreover have "same_config bld lb2" by (simp add: lb2_def same_config_def)
  ultimately show ?thesis using lk by (auto intro: same_config_trans)
qed

lemma GetLookup_IsEmptyRange:
  assumes "GetLookup sql bld k = Inr (lk, bld')"
  shows "IsEmptyRange lk = (None \<in> set k)"
  using GetLookup_Inr [OF assms] by (simp add: lookup_of_builder_def)

lemma GetLookup_Index:
  assumes "GetLookup sql bld k = Inr (lk, bld')"
  shows "lookup_Index lk = Some (index bld)"
  using GetLookup_Inr [OF assms] by (simp add: lookup_of_builder_def same_config_def)

text \<open>
  The keys a builder makes for itself, from a row (\<open>GetKey\<close>) or from the zero values
  (\<open>GetZeroKey\<close>), have one value per key expression.
\<close>

lemma zero_values_length: "zero_values es = Inr ks \<Longrightarrow> length ks = length es"
  by (induction es arbitrary: ks) (auto simp add: bind_err_def split: sum.splits)

lemma GetZeroKey_length: "GetZeroKey bld = Inr k \<Longrightarrow> length k = length (keyExprs bld)"
  by (simp add: GetZeroKey_def zero_values_length)

lemma GetKey_step_Inr:
  assumes "GetKey_step ctx row i bld = Inr lb'"
  shows "\<exists>ks v. key bld = Some ks \<and> lb' = bld\<lparr>key := Some (ks[i := v])\<rparr>"
  using assms
  by (auto simp add: GetKey_step_def bind_err_def index_at_def
      split: if_splits sum.splits option.splits)

lemma GetKey_length:
  assumes run: "GetKey bld ctx row = Inr (k, lb')"
    and scratch: "case key bld of None \<Rightarrow> True | Some ks \<Rightarrow> length ks = length (keyExprs bld)"
  shows "length k = length (keyExprs bld) \<and> key lb' = Some k \<and> keyExprs lb' = keyExprs bld"
proof -
  define lb1 where
    "lb1 = (if key bld = None then bld\<lparr>key := Some (replicate (length (keyExprs bld)) None)\<rparr> else bld)"
  define I where "I = (\<lambda>(i::nat) (s::LookupBuilder). keyExprs s = keyExprs bld
      \<and> (\<exists>ks. key s = Some ks \<and> length ks = length (keyExprs bld)))"
  from run obtain lb2 where
    lb2: "for_each [0..<length (keyExprs bld)] (GetKey_step ctx row) lb1 = Inr lb2"
    and res: "k = (case key lb2 of None \<Rightarrow> [] | Some ks \<Rightarrow> ks)" "lb' = lb2"
    by (auto simp add: GetKey_def Let_def bind_err_def lb1_def split: sum.splits if_splits)
  have "I (length (keyExprs bld)) lb2"
  proof (rule for_each_upt_partial [where I = I, OF _ _ lb2])
    show "0 \<le> length (keyExprs bld)" by simp
    show "I 0 lb1" using scratch by (auto simp add: I_def lb1_def split: option.splits)
  next
    fix i s s'
    assume "I i s" and "GetKey_step ctx row i s = Inr s'"
    then show "I (Suc i) s'"
      using GetKey_step_Inr [of ctx row i s s'] by (auto simp add: I_def)
  qed
  then show ?thesis using res by (auto simp add: I_def)
qed

lemma fold_nullSafe: "fold (\<lambda>m ns. if m then False else ns) msk b = (b \<and> True \<notin> set msk)"
  by (induction msk arbitrary: b) auto

lemma NewLookupBuilder_built: "built idx exprs msk (NewLookupBuilder idx exprs msk)"
  by (simp add: built_def NewLookupBuilder_def Let_def fold_nullSafe)

lemma NewLookupBuilder_padded: "padded_from sql n (NewLookupBuilder idx exprs msk)"
  by (simp add: padded_from_def NewLookupBuilder_def Let_def)

lemma GetLookup_built:
  assumes "built idx exprs msk bld"
    and "length k \<le> length (ColumnExpressionTypes idx)" "length k \<le> length msk"
  shows "\<exists>lk lb'. GetLookup sql bld k = Inr (lk, lb') \<and> built idx exprs msk lb'"
proof -
  have "\<exists>lb' r. GetLookup sql bld k = Inr (lookup_of_builder lb', lb') \<and> same_config bld lb'
           \<and> rang lb' = Some r \<and> length r = length (cets bld)"
    using GetLookup_total [of k bld sql] assms by (auto simp add: built_def)
  then show ?thesis
    using assms(1) by (auto simp add: built_def same_config_def)
qed

text \<open>
  \<open>LookupBuilder.WithExpressions\<close> keeps the range and the mask but not \<open>nullSafe\<close>: the new
  builder has \<open>nullSafe\<close> false whatever the mask is.
\<close>

lemma LookupBuilder_WithExpressions_fields:
  assumes "LookupBuilder_WithExpressions bld exprs = Inr bld'"
  shows "keyExprs bld' = exprs \<and> length exprs = length (keyExprs bld)
           \<and> matchesNullMask bld' = matchesNullMask bld \<and> index bld' = index bld
           \<and> cets bld' = cets bld \<and> rang bld' = rang bld \<and> \<not> nullSafe bld'"
  using assms by (auto simp add: LookupBuilder_WithExpressions_def split: if_splits)

lemma LookupBuilder_WithExpressions_padded:
  assumes "LookupBuilder_WithExpressions bld exprs = Inr bld'" and "padded_from sql n bld"
  shows "padded_from sql n bld'"
proof -
  have "cets bld' = cets bld" "rang bld' = rang bld"
    using LookupBuilder_WithExpressions_fields [OF assms(1)] by simp_all
  then show ?thesis using assms(2) by (simp add: padded_from_def split: option.splits)
qed

text \<open>
  C1, as amended. For every builder in the configuration \<open>NewLookupBuilder\<close> sets up, with as
  many key expressions (and mask positions) as the index has columns, and every key of
  that length without NULL: \<open>GetLookup\<close> returns a lookup whose \<open>IsPointLookup\<close> is true
  exactly when the index is unique and no position of the mask is null-safe.
\<close>

theorem GetLookup_point_lookup:
  assumes "built idx exprs msk bld"
    and "length exprs = length (ColumnExpressionTypes idx)"
    and "length msk = length exprs"
    and "length k = length exprs"
    and "None \<notin> set k"
  shows "\<exists>lk lb'. GetLookup sql bld k = Inr (lk, lb') \<and> built idx exprs msk lb'
           \<and> IsPointLookup lk = (True \<notin> set msk \<and> IsUnique idx)"
proof -
  have "\<exists>lb' r. GetLookup sql bld k = Inr (lookup_of_builder lb', lb') \<and> same_config bld lb'
           \<and> rang lb' = Some r \<and> length r = length (cets bld)
           \<and> isPointLookup lb' = (length k = length (cets bld) \<and> None \<notin> set k)"
    using GetLookup_total [of k bld sql] assms by (auto simp add: built_def)
  then obtain lb' r where lb': "GetLookup sql bld k = Inr (lookup_of_builder lb', lb')"
    "same_config bld lb'" "rang lb' = Some r" "length r = length (cets bld)"
    "isPointLookup lb' = (length k = length (cets bld) \<and> None \<notin> set k)"
    by blast
  have b': "built idx exprs msk lb'"
    using assms(1) lb'(2,3,4) by (auto simp add: built_def same_config_def)
  have "isPointLookup lb'"
    using lb'(5) assms by (simp add: built_def)
  then have "IsPointLookup (lookup_of_builder lb') = (True \<notin> set msk \<and> IsUnique idx)"
    using b' by (auto simp add: lookup_of_builder_def built_def)
  with lb'(1) b' show ?thesis by blast
qed

theorem GetLookup_point_lookup_witness:
  "built unique_index1 [column0] [False] (NewLookupBuilder unique_index1 [column0] [False])
   \<and> length [column0] = length (ColumnExpressionTypes unique_index1)
   \<and> length [False] = length [column0]
   \<and> length [Some (IntVal 1)] = length [column0]
   \<and> None \<notin> set [Some (IntVal 1)]
   \<and> (\<exists>lk lb'. GetLookup cut_ranges (NewLookupBuilder unique_index1 [column0] [False])
                   [Some (IntVal 1)] = Inr (lk, lb')
         \<and> IsPointLookup lk = IsUnique unique_index1)"
proof -
  have a: "built unique_index1 [column0] [False] (NewLookupBuilder unique_index1 [column0] [False])"
    by (rule NewLookupBuilder_built)
  have b: "length [column0] = length (ColumnExpressionTypes unique_index1)"
    by (simp add: unique_index1_def)
  have c: "length [False] = length [column0]" by simp
  have d: "length [Some (IntVal 1)] = length [column0]" by simp
  have e: "None \<notin> set [Some (IntVal 1)]" by simp
  from GetLookup_point_lookup [OF a b c d e, of cut_ranges] a b show ?thesis by auto
qed

text \<open>
  The claim as stated, at a unique one-column index whose only position is null-safe: the
  key \<open>(1)\<close> has no NULL, yet the lookup is not a point lookup.
\<close>

theorem GetLookup_null_safe_mask_not_point_lookup:
  "map_sum id (IsPointLookup \<circ> fst)
     (GetLookup cut_ranges (NewLookupBuilder unique_index1 [column0] [True]) [Some (IntVal 1)])
     = Inr False
   \<and> IsUnique unique_index1
   \<and> length [column0] = length (ColumnExpressionTypes unique_index1)"
  by (simp add: GetLookup_def NewLookupBuilder_def initializeRange_def
      initializeRange_key_step_def initializeRange_pad_step_def lookup_of_builder_def set_rang_def
      note_nil_key_def bind_err_def index_at_def unique_index1_def cut_ranges_def)

text \<open>
  C4. \<open>IsEmptyRange\<close> is meant to be set only when a position that is not null-safe
  received NULL. On a builder whose only position is null-safe, the key \<open>(NULL)\<close> gives the
  null range at that position, and the lookup is marked as an empty range all the same.
\<close>

theorem GetLookup_null_at_null_safe_position_marks_empty:
  "map_sum id (IsEmptyRange \<circ> fst)
     (GetLookup cut_ranges (NewLookupBuilder unique_index1 [column0] [True]) [None]) = Inr True
   \<and> map_sum id (Ranges \<circ> fst)
     (GetLookup cut_ranges (NewLookupBuilder unique_index1 [column0] [True]) [None])
     = Inr [[NullRangeColumnExpr cut_ranges int_type]]"
  by (simp add: GetLookup_def NewLookupBuilder_def initializeRange_def
      initializeRange_key_step_def initializeRange_pad_step_def lookup_of_builder_def set_rang_def
      note_nil_key_def bind_err_def index_at_def unique_index1_def cut_ranges_def)

text \<open>
  One call keeps the padding: the loop over the key writes only positions below the key
  length.
\<close>

lemma GetLookup_keeps_padding:
  assumes "cets bld = ColumnExpressionTypes (index bld)"
    and "length k \<le> length (cets bld)"
    and "length k \<le> length (matchesNullMask bld)"
    and "padded_from sql (length k) bld"
  shows "\<exists>lk lb'. GetLookup sql bld k = Inr (lk, lb')
           \<and> range_padded sql (index bld) (length k) lk
           \<and> cets lb' = cets bld \<and> index lb' = index bld
           \<and> matchesNullMask lb' = matchesNullMask bld
           \<and> padded_from sql (length k) lb'"
proof -
  have sized: "case rang bld of None \<Rightarrow> True | Some r \<Rightarrow> length r = length (cets bld)"
    using assms(4) by (simp add: padded_from_def split: option.splits)
  from GetLookup_total [OF assms(2,3) sized, of sql] obtain lb' r where
    lb': "GetLookup sql bld k = Inr (lookup_of_builder lb', lb')" "same_config bld lb'"
      "rang lb' = Some r" "length r = length (cets bld)"
      "drop (length k) r
         = (case rang bld of
              None \<Rightarrow> map (\<lambda>c. AllRangeColumnExpr sql (cet_Type c)) (drop (length k) (cets bld))
            | Some r0 \<Rightarrow> drop (length k) r0)"
    by blast
  have pad: "drop (length k) r
      = map (\<lambda>c. AllRangeColumnExpr sql (cet_Type c)) (drop (length k) (cets bld))"
    using lb'(5) assms(4) by (simp add: padded_from_def split: option.splits)
  have "range_padded sql (index bld) (length k) (lookup_of_builder lb')"
    using lb'(3,4) pad assms(1) by (simp add: range_padded_def lookup_of_builder_def)
  moreover have "padded_from sql (length k) lb'"
    using lb'(2,3,4) pad by (simp add: padded_from_def same_config_def)
  ultimately show ?thesis
    using lb'(1,2) by (auto simp add: same_config_def)
qed

lemma GetLookups_keep_padding:
  assumes "cets bld = ColumnExpressionTypes (index bld)"
    and "n \<le> length (cets bld)"
    and "n \<le> length (matchesNullMask bld)"
    and "padded_from sql n bld"
    and "list_all (\<lambda>k. length k = n) ks"
  shows "\<exists>lks lb'. GetLookups sql bld ks = Inr (lks, lb') \<and> length lks = length ks
           \<and> list_all (range_padded sql (index bld) n) lks"
  using assms
proof (induction ks arbitrary: bld)
  case Nil
  then show ?case by simp
next
  case (Cons k ks)
  then have n: "length k = n" and rest: "list_all (\<lambda>k. length k = n) ks" by simp_all
  from GetLookup_keeps_padding [of bld k sql] Cons.prems n obtain lk lb1 where
    one: "GetLookup sql bld k = Inr (lk, lb1)" "range_padded sql (index bld) n lk"
      "cets lb1 = cets bld" "index lb1 = index bld" "matchesNullMask lb1 = matchesNullMask bld"
      "padded_from sql n lb1"
    by auto
  from Cons.IH [of lb1] one Cons.prems rest obtain lks lb' where
    more: "GetLookups sql lb1 ks = Inr (lks, lb')" "length lks = length ks"
      "list_all (range_padded sql (index bld) n) lks"
    by auto
  show ?case using one more by (simp add: bind_err_def)
qed

text \<open>
  C7. For every builder made by \<open>NewLookupBuilder\<close> with no more key expressions than the
  index has columns, and every sequence of keys for it (a key has one value per key
  expression, so it may be shorter than the index arity): each call of \<open>GetLookup\<close> returns,
  and the range it produces (the first call, through \<open>initializeRange\<close>) or maintains
  (later calls) has exactly one position per index column, with every position at or past
  the key length holding the \<open>all\<close> range.
\<close>

theorem GetLookup_range_arity_and_padding:
  assumes "length exprs \<le> length (ColumnExpressionTypes idx)"
    and "length exprs \<le> length msk"
    and "list_all (\<lambda>k. length k = length exprs) ks"
  shows "\<exists>lks lb'. GetLookups sql (NewLookupBuilder idx exprs msk) ks = Inr (lks, lb')
           \<and> length lks = length ks
           \<and> list_all (range_padded sql idx (length exprs)) lks"
proof -
  let ?bld = "NewLookupBuilder idx exprs msk"
  have "cets ?bld = ColumnExpressionTypes (index ?bld)" "index ?bld = idx"
    "cets ?bld = ColumnExpressionTypes idx" "matchesNullMask ?bld = msk"
    by (simp_all add: NewLookupBuilder_def Let_def)
  with GetLookups_keep_padding [of ?bld "length exprs" sql ks] assms NewLookupBuilder_padded
  show ?thesis by simp
qed

theorem GetLookup_range_arity_and_padding_witness:
  "length [column0] \<le> length (ColumnExpressionTypes unique_index2)
   \<and> length [column0] \<le> length [False]
   \<and> list_all (\<lambda>k. length k = length [column0]) [[Some (IntVal 7)], [Some (IntVal 8)]]
   \<and> (\<exists>lks lb'. GetLookups cut_ranges (NewLookupBuilder unique_index2 [column0] [False])
                    [[Some (IntVal 7)], [Some (IntVal 8)]] = Inr (lks, lb')
         \<and> length lks = 2
         \<and> list_all (range_padded cut_ranges unique_index2 1) lks)"
proof -
  have a: "length [column0] \<le> length (ColumnExpressionTypes unique_index2)"
    by (simp add: unique_index2_def)
  have b: "length [column0] \<le> length [False]" by simp
  have c: "list_all (\<lambda>k. length k = length [column0]) [[Some (IntVal 7)], [Some (IntVal 8)]]"
    by simp
  from GetLookup_range_arity_and_padding [OF a b c, of cut_ranges] a b c show ?thesis
    by (simp add: numeral_2_eq_2 del: GetLookups.simps)
qed

section \<open>Properties of indexed table access\<close>

text \<open>
  The two constructors return \<open>ErrInvalidLookupForIndexedTable\<close> exactly when the index
  cannot support the ranges, and a node when it can.
\<close>

lemma NewStaticIndexedAccessForResolvedTable_CanSupport:
  assumes "IndexAddressable (unwrap (ResolvedTable.Table rt))"
    and "lookup_Index lk = Some idx"
  shows "(NewStaticIndexedAccessForResolvedTable rt lk = Inl ErrInvalidLookupForIndexedTable)
           = (\<not> CanSupport idx (Ranges lk))"
    and "CanSupport idx (Ranges lk) \<Longrightarrow> \<exists>a. NewStaticIndexedAccessForResolvedTable rt lk = Inr a"
  using assms
  by (simp_all add: NewStaticIndexedAccessForResolvedTable_def Let_def bind_err_def deref_def)

lemma NewIndexedAccessForResolvedTable_CanSupport:
  assumes "IndexAddressable (unwrap (ResolvedTable.Table rt))"
    and "GetZeroKey builder = Inr zeroKey"
    and "GetLookup sql builder zeroKey = Inr (lk, builder')"
  shows "(NewIndexedAccessForResolvedTable sql rt (Some builder)
            = Inl ErrInvalidLookupForIndexedTable)
           = (\<not> CanSupport (index builder) (Ranges lk))"
    and "CanSupport (index builder) (Ranges lk)
           \<Longrightarrow> \<exists>a. NewIndexedAccessForResolvedTable sql rt (Some builder) = Inr a"
  using assms GetLookup_Index [OF assms(3)]
  by (simp_all add: NewIndexedAccessForResolvedTable_def Let_def bind_err_def deref_def)

text \<open>\<open>WithTable\<close> returns that error exactly when the index can support the ranges.\<close>

lemma WithTable_CanSupport:
  assumes "rtWithTable (ResolvedTable i) tbl = Inr nrt"
    and "IndexAddressable (unwrap tbl)"
    and "lookup_Index (lookup i) = Some idx"
  shows "(WithTable rtWithTable sql i tbl = Inl ErrInvalidLookupForIndexedTable)
           = CanSupport idx (Ranges (lookup i))"
    and "\<not> CanSupport idx (Ranges (lookup i))
           \<Longrightarrow> WithTable rtWithTable sql i tbl = Inr (i\<lparr>ResolvedTable := nrt\<rparr>)"
  using assms
  by (simp_all add: WithTable_def Let_def bind_err_def deref_def)

lemma WithTable_unsupported_lookup_accepted:
  "WithTable replace_table cut_ranges
     (static_access\<lparr>lookup := static_lookup\<lparr>lookup_Index := Some picky_index\<rparr>\<rparr>) example_table
     = Inr (static_access\<lparr>lookup := static_lookup\<lparr>lookup_Index := Some picky_index\<rparr>\<rparr>)"
  by (simp add: WithTable_def Let_def bind_err_def deref_def replace_table_def static_access_def
      static_lookup_def example_table_def example_rt_def unwrap_def picky_index_def)

text \<open>
  C2. Every construction or rebuild of an IndexedTableAccess is meant to fail with
  \<open>ErrInvalidLookupForIndexedTable\<close> exactly when the index cannot support the ranges.
  \<open>NewStaticIndexedAccessForResolvedTable\<close> accepts the lookup \<open>static_lookup\<close>, whose index
  supports its ranges, and builds the node \<open>static_access\<close>; \<open>WithTable\<close> on that node, with
  the same index-addressable table, fails with the error.
\<close>

theorem WithTable_supported_lookup_rejected:
  "CanSupport unique_index1 (Ranges static_lookup)
   \<and> NewStaticIndexedAccessForResolvedTable example_rt static_lookup = Inr static_access
   \<and> WithTable replace_table cut_ranges static_access example_table
       = Inl ErrInvalidLookupForIndexedTable"
  by (simp add: WithTable_def NewStaticIndexedAccessForResolvedTable_def Let_def bind_err_def
      deref_def replace_table_def static_access_def static_lookup_def example_table_def
      example_rt_def unwrap_def unique_index1_def)

section \<open>Properties of buildNaturalJoin\<close>

lemma naturalJoin_right_step_filter:
  "\<exists>s p f. naturalJoin_right_step m leftScope rCol st = (s, p, Some f)"
  by (cases st) (simp add: naturalJoin_right_step_def Let_def)

lemma fold_naturalJoin_right_step_filter:
  "\<exists>s' p' f'. fold (naturalJoin_right_step m leftScope) cs (s, p, Some f) = (s', p', Some f')"
proof (induction cs arbitrary: s p f)
  case Nil
  then show ?case by simp
next
  case (Cons c cs)
  obtain s1 p1 f1 where "naturalJoin_right_step m leftScope c (s, p, Some f) = (s1, p1, Some f1)"
    using naturalJoin_right_step_filter by blast
  with Cons.IH [of s1 p1 f1] show ?case by simp
qed

text \<open>
  The node \<open>buildNaturalJoin\<close> makes is decided by the right scope alone: a cross join when
  it has no column, an inner join with a filter as soon as it has one, whether or not a
  name is shared.
\<close>

lemma buildNaturalJoin_node:
  "cols rightScope = []
     \<Longrightarrow> node (buildNaturalJoin m inScope leftScope rightScope)
           = NewCrossJoin (node leftScope) (node rightScope)"
  "cols rightScope \<noteq> []
     \<Longrightarrow> \<exists>f. node (buildNaturalJoin m inScope leftScope rightScope)
               = NewJoin (node leftScope) (node rightScope) JoinTypeInner (Some f)"
proof -
  show "cols rightScope = []
     \<Longrightarrow> node (buildNaturalJoin m inScope leftScope rightScope)
           = NewCrossJoin (node leftScope) (node rightScope)"
    by (simp add: buildNaturalJoin_def Let_def set_node_def split: prod.splits)
next
  assume "cols rightScope \<noteq> []"
  then obtain c cs where cs: "cols rightScope = c # cs" by (cases "cols rightScope") auto
  define st1 where "st1 = fold (naturalJoin_left_step m) (cols leftScope) (push inScope, [])"
  obtain s1 p1 f1 where
    "naturalJoin_right_step m leftScope c (fst st1, snd st1, None) = (s1, p1, Some f1)"
    using naturalJoin_right_step_filter by blast
  moreover obtain s2 p2 f2 where
    "fold (naturalJoin_right_step m leftScope) cs (s1, p1, Some f1) = (s2, p2, Some f2)"
    using fold_naturalJoin_right_step_filter by blast
  ultimately have "fold (naturalJoin_right_step m leftScope) (cols rightScope)
      (fst st1, snd st1, None) = (s2, p2, Some f2)"
    using cs by simp
  then show "\<exists>f. node (buildNaturalJoin m inScope leftScope rightScope)
               = NewJoin (node leftScope) (node rightScope) JoinTypeInner (Some f)"
    by (simp add: buildNaturalJoin_def Let_def set_node_def st1_def)
qed

text \<open>
  C3. A NATURAL JOIN of two sides that share no column name is meant to give a cross
  join. For the left columns \<open>(a)\<close> and the right columns \<open>(b)\<close>, \<open>buildNaturalJoin\<close> gives an
  inner join whose filter equates the zero-valued column with \<open>b\<close>; the columns \<open>a\<close> and
  \<open>b\<close> do pass through to the output scope.
\<close>

theorem buildNaturalJoin_no_shared_names_inner_join:
  "set (map col (cols left_scope)) \<inter> set (map col (cols right_scope)) = {}
   \<and> buildNaturalJoin example_methods root_scope left_scope right_scope
       = Scope (Some root_scope)
           (NewJoin (TableNode ''t1'') (TableNode ''t2'') JoinTypeInner
              (Some (NewEquals (scalarGf example_methods zero_scopeColumn)
                       (scalarGf example_methods column_b))))
           [column_a, column_b] []"
  by (simp add: buildNaturalJoin_def naturalJoin_left_step_def naturalJoin_right_step_def
      Let_def set_node_def push_def addColumn_def redirect_def left_scope_def right_scope_def
      column_a_def column_b_def example_methods_def zero_scopeColumn_def)

section \<open>Properties of buildUnion\<close>

text \<open>
  C6, as amended. For every union whose left child builds to a union node: if both carry
  sort fields, \<open>buildUnion\<close> fails with \<open>ErrConflictingExternalQuery\<close>; otherwise, if both
  carry a limit, it fails with the plain error \<open>conflicing external LIMIT\<close>; otherwise, if
  both carry an offset, with the plain error \<open>conflicing external OFFSET\<close>; otherwise it
  succeeds: each of sort, limit and offset that the inner union carries is hoisted into
  the outer node, the outer one is kept where the inner union has none, and the inner
  union is rebuilt without them.
\<close>

theorem buildUnion_left_union:
  assumes "buildSelectStmt b inScope (Union_Left u) = Inr leftScope"
    and "buildSelectStmt b inScope (Union_Right u) = Inr rightScope"
    and "buildLimit b inScope (Union_Limit u) = Inr limit"
    and "buildOffset b inScope (Union_Limit u) = Inr offset"
    and "analyzeOrderBy b leftScope leftScope (Union_OrderBy u) = Inr orderByScope"
    and "node leftScope = NewUnion nLeft nRight nDistinct nLimit nOffset nSortFields"
  shows "buildUnion b inScope u =
     (if nSortFields \<noteq> [] \<and> sortFields_of orderByScope \<noteq> []
        then Inl ErrConflictingExternalQuery
      else if nLimit \<noteq> None \<and> limit \<noteq> None
        then Inl (ErrOther ''conflicing external LIMIT'')
      else if nOffset \<noteq> None \<and> offset \<noteq> None
        then Inl (ErrOther ''conflicing external OFFSET'')
      else Inr (set_node leftScope
             (NewUnion (NewUnion nLeft nRight nDistinct None None []) (node rightScope)
                (Union_Type u \<noteq> UnionAllStr)
                (if nLimit \<noteq> None then nLimit else limit)
                (if nOffset \<noteq> None then nOffset else offset)
                (if nSortFields \<noteq> [] then nSortFields else sortFields_of orderByScope))))"
  using assms
  by (simp add: buildUnion_def hoist_left_union_def handleErr_def bind_err_def Let_def)

theorem buildUnion_left_union_witness:
  "buildSelectStmt example_builder root_scope (Union_Left outer_union_plain)
     = Inr (Scope (Some root_scope) inner_union_node [column_a] [])
   \<and> node (Scope (Some root_scope) inner_union_node [column_a] [])
     = NewUnion (TableNode ''t1'') (TableNode ''t2'') True (Some (Scalar ''5'')) None []
   \<and> buildUnion example_builder root_scope outer_union_plain
     = Inr (Scope (Some root_scope)
         (NewUnion (NewUnion (TableNode ''t1'') (TableNode ''t2'') True None None [])
            (TableNode ''t3'') True (Some (Scalar ''5'')) None [])
         [column_a] [])"
proof -
  let ?l = "Scope (Some root_scope) inner_union_node [column_a] []"
  let ?r = "Scope (Some root_scope) (TableNode ''t3'') [column_a] []"
  let ?o = "Scope (Some ?l) NilNode [] []"
  have a: "buildSelectStmt example_builder root_scope (Union_Left outer_union_plain) = Inr ?l"
    by (simp add: example_builder_def outer_union_plain_def)
  have b: "buildSelectStmt example_builder root_scope (Union_Right outer_union_plain) = Inr ?r"
    by (simp add: example_builder_def outer_union_plain_def)
  have c: "buildLimit example_builder root_scope (Union_Limit outer_union_plain) = Inr None"
    by (simp add: example_builder_def outer_union_plain_def)
  have d: "buildOffset example_builder root_scope (Union_Limit outer_union_plain) = Inr None"
    by (simp add: example_builder_def outer_union_plain_def)
  have e: "analyzeOrderBy example_builder ?l ?l (Union_OrderBy outer_union_plain) = Inr ?o"
    by (simp add: example_builder_def outer_union_plain_def)
  have f: "node ?l
      = NewUnion (TableNode ''t1'') (TableNode ''t2'') True (Some (Scalar ''5'')) None []"
    by (simp add: inner_union_node_def)
  from buildUnion_left_union [OF a b c d e f] a f show ?thesis
    by (simp add: set_node_def sortFields_of_def outer_union_plain_def UnionAllStr_def)
qed

text \<open>
  The claim as stated, at an inner union with \<open>LIMIT 5\<close> under an outer union with
  \<open>LIMIT 10\<close>: the build fails, but not with \<open>ErrConflictingExternalQuery\<close>.
\<close>

theorem buildUnion_limit_conflict_other_error:
  "buildUnion example_builder root_scope outer_union_limit
     = Inl (ErrOther ''conflicing external LIMIT'')
   \<and> buildUnion example_builder root_scope outer_union_limit \<noteq> Inl ErrConflictingExternalQuery"
  by (simp add: buildUnion_def hoist_left_union_def handleErr_def bind_err_def Let_def
      example_builder_def outer_union_limit_def inner_union_node_def sortFields_of_def)

end
